theory Spec2Isabelle
  imports Main
begin

section \<open>JavaScript values used by index.js\<close>

text \<open>
  A string is a list of characters, the code units of the JavaScript string; the
  functions below only compare characters. The conversions that depend on the Unicode
  tables of the runtime (\<open>toUpperCase\<close>, \<open>toLowerCase\<close>, \<open>trim\<close>) are not defined
  here: the functions that call them take them as parameters.
  A value that may be \<open>undefined\<close> or \<open>null\<close> is an option; JavaScript truthiness is
  written out: a string is truthy when it is present and not empty, a number when it
  is present and not zero.
\<close>

definition truthy_str :: "string option \<Rightarrow> bool" where
  "truthy_str s = (case s of None \<Rightarrow> False | Some x \<Rightarrow> x \<noteq> [])"

definition truthy_num :: "int option \<Rightarrow> bool" where
  "truthy_num n = (case n of None \<Rightarrow> False | Some x \<Rightarrow> x \<noteq> 0)"

text \<open>\<open>s.startsWith(p)\<close>, \<open>s.includes(t)\<close> and \<open>s.substring(n)\<close>.\<close>

fun startsWith :: "string \<Rightarrow> string \<Rightarrow> bool" where
  "startsWith s [] = True"
| "startsWith [] (p # ps) = False"
| "startsWith (c # cs) (p # ps) = (c = p \<and> startsWith cs ps)"

fun includes_str :: "string \<Rightarrow> string \<Rightarrow> bool" where
  "includes_str [] t = (t = [])"
| "includes_str (c # cs) t = (startsWith (c # cs) t \<or> includes_str cs t)"

definition substring :: "string \<Rightarrow> nat \<Rightarrow> string" where
  "substring s n = drop n s"

text \<open>
  \<open>s.split(' ')\<close>: the pieces between single spaces; two spaces in a row, a leading or a
  trailing space give an empty piece, and the empty string gives one empty piece.
\<close>

fun split_space :: "string \<Rightarrow> string list" where
  "split_space [] = [[]]"
| "split_space (c # cs) =
     (if c = CHR '' '' then [] # split_space cs
      else (case split_space cs of
              w # ws \<Rightarrow> (c # w) # ws
            | [] \<Rightarrow> [[c]]))"

section \<open>The initials helper\<close>

text \<open>
  \<^verbatim>\<open>function getInitials(name) {
    if (!name) return '';
    return name.split(' ').map(word => word.charAt(0)).join('').toUpperCase(); }\<close>
  \<open>word.charAt(0)\<close> is the first character, or the empty string for an empty word.
\<close>

definition charAt0 :: "string \<Rightarrow> string" where
  "charAt0 w = take 1 w"

definition getInitials :: "(string \<Rightarrow> string) \<Rightarrow> string option \<Rightarrow> string" where
  "getInitials toUpperCase name =
     (if \<not> truthy_str name then []
      else toUpperCase (concat (map charAt0 (split_space (the name)))))"

text \<open>
  The helper as the specification words it: the first character of each
  space-separated word, put together and uppercased. \<open>first_letters\<close> walks the name
  once and keeps a character when it is not a space and a word starts there (at the
  beginning of the name or after a space).
\<close>

fun first_letters :: "bool \<Rightarrow> string \<Rightarrow> string" where
  "first_letters at_start [] = []"
| "first_letters at_start (c # cs) =
     (if c = CHR '' '' then first_letters True cs
      else if at_start then c # first_letters False cs
      else first_letters False cs)"

definition initials_spec :: "(string \<Rightarrow> string) \<Rightarrow> string \<Rightarrow> string" where
  "initials_spec toUpperCase name = toUpperCase (first_letters True name)"

section \<open>The global error handler\<close>

record js_error =
  err_code :: "string option"
  err_message :: "string option"
  err_statusCode :: "int option"

record error_body =
  eb_error :: "string option"
  eb_status :: string

text \<open>
  What an Express error middleware does with a request: hand it on (\<open>next()\<close>), answer it,
  or throw. \<open>Throws\<close> is the \<open>TypeError\<close> of \<open>err.message.includes\<close> on an error with no
  message.
\<close>

datatype handler_outcome =
    Next
  | Respond int error_body
  | Throws

record env =
  production :: bool
  email_verification :: bool
  twitter_bearer_token :: "string option"

definition unhandled_error :: "env \<Rightarrow> js_error \<Rightarrow> handler_outcome" where
  "unhandled_error e err =
     (let errorMessage = (if production e then Some ''An unexpected error occurred''
                          else err_message err);
          status = (if truthy_num (err_statusCode err) then the (err_statusCode err) else 500)
      in Respond status \<lparr>eb_error = errorMessage, eb_status = ''error''\<rparr>)"

definition global_error_handler :: "env \<Rightarrow> js_error \<Rightarrow> handler_outcome" where
  "global_error_handler e err =
     (if truthy_str (err_code err) then
        (let c = the (err_code err) in
         if c = ''42P01'' then
           (case err_message err of None \<Rightarrow> Throws | Some m \<Rightarrow> Next)
         else if c = ''42P07'' then Next
         else if c = ''23505'' then
           (if truthy_str (err_message err) \<and> includes_str (the (err_message err)) ''session_pkey''
            then Next else unhandled_error e err)
         else if c = ''ETIMEDOUT'' \<or> c = ''ECONNREFUSED'' \<or> c = ''ENOTFOUND'' then
           Respond 503 \<lparr>eb_error = Some ''Database service temporarily unavailable'',
                        eb_status = ''error''\<rparr>
         else unhandled_error e err)
      else unhandled_error e err)"

section \<open>Users, sessions, requests\<close>

text \<open>
  A row of \<open>deuss.users\<close> with the columns index.js reads or writes. Times are
  milliseconds since the epoch. The database is a record of its tables; \<open>db_up\<close> says
  whether \<open>pool.query\<close> resolves: when it is false every query rejects, which the
  handlers catch and answer with status 500.
\<close>

record user_row =
  u_id :: int
  u_email :: string
  u_password :: string
  u_full_name :: "string option"
  u_avatar_url :: "string option"
  u_tier :: "string option"
  u_is_verified :: "bool option"
  u_country :: "string option"
  u_verification_token :: "string option"
  u_verification_token_expiry :: "int option"
  u_created_at :: int
  u_updated_at :: int

record category_row =
  cat_id :: int
  cat_user_id :: int
  cat_name :: string
  cat_icon :: string
  cat_created_at :: int
  cat_updated_at :: int

record social_profile_row =
  sp_platform :: string
  sp_username :: string
  sp_connected :: bool
  sp_api_key :: "string option"

record db =
  db_up :: bool
  users :: "user_row list"
  next_user_id :: int
  categories :: "category_row list"
  next_category_id :: int
  social_profiles :: "social_profile_row list"

text \<open>The payload of a bearer token, as \<open>jwt.sign\<close> receives it and \<open>jwt.verify\<close> gives it back.\<close>

record claims =
  c_id :: "int option"
  c_email :: string
  c_full_name :: "string option"
  c_tier :: string
  c_is_verified :: bool

text \<open>
  \<open>req.session\<close>: the user reference \<open>uid\<close>, and whether the object has the methods
  \<open>save\<close>, \<open>destroy\<close> and \<open>touch\<close> (the handlers test \<open>typeof ... === 'function'\<close>
  before each call). Every session object of this program has all three: the one of
  express-session and the two placeholders built in index.js. \<open>save_fails\<close> says
  whether \<open>save\<close> hands an error to its callback.
\<close>

record session =
  uid :: "int option"
  has_save :: bool
  has_destroy :: bool
  has_touch :: bool
  save_fails :: bool

datatype session_call = Touch | Save | Destroy

record request =
  req_session :: "session option"
  req_sessionID :: "string option"
  req_authorization :: "string option"
  req_cookie :: "string option"
  req_user :: "claims option"

definition session_uid :: "request \<Rightarrow> int option" where
  "session_uid req =
     (case req_session req of None \<Rightarrow> None
      | Some s \<Rightarrow> (if truthy_num (uid s) then uid s else None))"

definition tier_or_basic :: "user_row \<Rightarrow> string" where
  "tier_or_basic u = (if truthy_str (u_tier u) then the (u_tier u) else ''basic'')"

definition verified_or_false :: "user_row \<Rightarrow> bool" where
  "verified_or_false u = (case u_is_verified u of None \<Rightarrow> False | Some b \<Rightarrow> b)"

text \<open>The payload both the login and the session-check endpoint sign.\<close>

definition token_payload :: "user_row \<Rightarrow> claims" where
  "token_payload u =
     \<lparr>c_id = Some (u_id u), c_email = u_email u, c_full_name = u_full_name u,
      c_tier = tier_or_basic u, c_is_verified = verified_or_false u\<rparr>"

text \<open>
  The backup cookie:
  \<^verbatim>\<open>jwt=${token}; Max-Age=${30 * 24 * 60 * 60}; Path=/; HttpOnly; ${production ? 'Secure; SameSite=None' : ''}\<close>
\<close>

definition jwt_cookie :: "env \<Rightarrow> string \<Rightarrow> string" where
  "jwt_cookie e token =
     ''jwt='' @ token @ ''; Max-Age=2592000; Path=/; HttpOnly; '' @
     (if production e then ''Secure; SameSite=None'' else [])"

text \<open>
  \<open>jwt.verify(token, JWT_SECRET)\<close> and \<open>jwt.sign(payload, JWT_SECRET, {expiresIn})\<close>
  belong to the jsonwebtoken package; the handlers take them as the parameters
  \<open>verify\<close> (\<open>None\<close> when it throws) and \<open>sign\<close> (payload, \<open>expiresIn\<close>).

  The bearer token of the \<open>Authorization\<close> header, as every handler reads it:
  the header starts with \<open>'Bearer '\<close>, the rest verifies, and the payload has a truthy id.
\<close>

definition header_token :: "(string \<Rightarrow> claims option) \<Rightarrow> request \<Rightarrow> claims option" where
  "header_token verify req =
     (if truthy_str (req_authorization req)
         \<and> startsWith (the (req_authorization req)) ''Bearer ''
      then (case verify (substring (the (req_authorization req)) 7) of
              None \<Rightarrow> None
            | Some decoded \<Rightarrow> (if truthy_num (c_id decoded) then Some decoded else None))
      else None)"

text \<open>\<open>cookies.match(/jwt=([^;]+)/)\<close>: the first \<open>jwt=\<close> that a character other than \<open>;\<close> follows.\<close>

fun cookie_match :: "string \<Rightarrow> string option" where
  "cookie_match [] = None"
| "cookie_match (c # cs) =
     (let v = takeWhile (\<lambda>x. x \<noteq> CHR '';'') (drop 4 (c # cs))
      in if startsWith (c # cs) ''jwt='' \<and> v \<noteq> [] then Some v else cookie_match cs)"

definition cookie_token :: "(string \<Rightarrow> claims option) \<Rightarrow> request \<Rightarrow> claims option" where
  "cookie_token verify req =
     (if truthy_str (req_cookie req) then
        (case cookie_match (the (req_cookie req)) of
           None \<Rightarrow> None
         | Some token \<Rightarrow>
             (case verify token of
                None \<Rightarrow> None
              | Some decoded \<Rightarrow> (if truthy_num (c_id decoded) then Some decoded else None)))
      else None)"

section \<open>The loginRequired middleware\<close>

datatype auth_outcome = Pass | Deny int string

record auth_result =
  ar_outcome :: auth_outcome
  ar_userId :: "int option"
  ar_request :: request
  ar_calls :: "session_call list"

text \<open>
  A verified token sets \<open>req.user\<close>; a session that has no user reference gets the
  token's id and is saved.
\<close>

definition accept_token :: "request \<Rightarrow> claims \<Rightarrow> auth_result" where
  "accept_token req decoded =
     (case req_session req of
        None \<Rightarrow>
          \<lparr>ar_outcome = Pass, ar_userId = c_id decoded,
           ar_request = req\<lparr>req_user := Some decoded\<rparr>, ar_calls = []\<rparr>
      | Some s \<Rightarrow>
          (if \<not> truthy_num (uid s) then
             \<lparr>ar_outcome = Pass, ar_userId = c_id decoded,
              ar_request = req\<lparr>req_user := Some decoded,
                               req_session := Some (s\<lparr>uid := c_id decoded\<rparr>)\<rparr>,
              ar_calls = (if has_save s then [Save] else [])\<rparr>
           else
             \<lparr>ar_outcome = Pass, ar_userId = c_id decoded,
              ar_request = req\<lparr>req_user := Some decoded\<rparr>, ar_calls = []\<rparr>))"

definition loginRequired :: "(string \<Rightarrow> claims option) \<Rightarrow> request \<Rightarrow> auth_result" where
  "loginRequired verify req =
     (case session_uid req of
        Some i \<Rightarrow> \<lparr>ar_outcome = Pass, ar_userId = Some i, ar_request = req, ar_calls = []\<rparr>
      | None \<Rightarrow>
          (case header_token verify req of
             Some decoded \<Rightarrow> accept_token req decoded
           | None \<Rightarrow>
               (case cookie_token verify req of
                  Some decoded \<Rightarrow> accept_token req decoded
                | None \<Rightarrow>
                    \<lparr>ar_outcome = Deny 401 ''Authentication required'', ar_userId = None,
                     ar_request = req, ar_calls = []\<rparr>)))"

section \<open>The session-check endpoint\<close>

record user_json =
  uj_id :: int
  uj_email :: string
  uj_full_name :: "string option"
  uj_avatar_url :: "string option"
  uj_tier :: string
  uj_is_verified :: bool
  uj_initials :: string

record session_body =
  sb_isValid :: bool
  sb_error :: "string option"
  sb_sessionExists :: "bool option"
  sb_sessionValid :: "bool option"
  sb_sessionID :: "string option"
  sb_token :: "string option"
  sb_user :: "user_json option"

record session_check_result =
  sc_status :: int
  sc_body :: session_body
  sc_cookie :: "string option"
  sc_userId :: "int option"
  sc_session :: "session option"
  sc_calls :: "session_call list"

text \<open>
  The first part of \<open>GET /api/auth/session\<close>: the user id and \<open>isSessionValid\<close>.
  The header token is read first; the session then only fills an id that is still
  missing (\<open>userId = userId || req.session.uid\<close>).
\<close>

definition session_check_userId :: "(string \<Rightarrow> claims option) \<Rightarrow> request \<Rightarrow> int option" where
  "session_check_userId verify req =
     (case header_token verify req of
        Some tokenUser \<Rightarrow> c_id tokenUser
      | None \<Rightarrow> session_uid req)"

definition isSessionValid :: "request \<Rightarrow> bool" where
  "isSessionValid req = (session_uid req \<noteq> None)"

definition session_user_json :: "(string \<Rightarrow> string) \<Rightarrow> user_row \<Rightarrow> user_json" where
  "session_user_json toUpperCase u =
     \<lparr>uj_id = u_id u, uj_email = u_email u, uj_full_name = u_full_name u,
      uj_avatar_url = u_avatar_url u, uj_tier = tier_or_basic u,
      uj_is_verified = verified_or_false u,
      uj_initials = getInitials toUpperCase (u_full_name u)\<rparr>"

definition failure_body :: "string option \<Rightarrow> bool option \<Rightarrow> session_body" where
  "failure_body err ex =
     \<lparr>sb_isValid = False, sb_error = err, sb_sessionExists = ex, sb_sessionValid = None,
      sb_sessionID = None, sb_token = None, sb_user = None\<rparr>"

definition session_check ::
  "(string \<Rightarrow> string) \<Rightarrow> env \<Rightarrow> (claims \<Rightarrow> string \<Rightarrow> string) \<Rightarrow> (string \<Rightarrow> claims option) \<Rightarrow> db \<Rightarrow> request
   \<Rightarrow> session_check_result" where
  "session_check toUpperCase e sign verify d req =
     (case session_check_userId verify req of
        None \<Rightarrow>
          \<lparr>sc_status = 401,
           sc_body = failure_body (Some ''No valid authentication found'')
                       (Some (req_session req \<noteq> None)),
           sc_cookie = None, sc_userId = None, sc_session = req_session req, sc_calls = []\<rparr>
      | Some userId \<Rightarrow>
          (if \<not> db_up d then
             \<lparr>sc_status = 500, sc_body = failure_body None None, sc_cookie = None,
              sc_userId = Some userId, sc_session = req_session req, sc_calls = []\<rparr>
           else
             (case filter (\<lambda>u. u_id u = userId) (users d) of
                [] \<Rightarrow>
                  \<lparr>sc_status = 404,
                   sc_body = failure_body (Some ''User not found in database'') None,
                   sc_cookie = None, sc_userId = Some userId, sc_session = req_session req,
                   sc_calls = (case req_session req of
                                 None \<Rightarrow> []
                               | Some s \<Rightarrow> (if has_destroy s then [Destroy] else []))\<rparr>
              | user # _ \<Rightarrow>
                  (let newToken = sign (token_payload user) ''30d'';
                       touch = (case req_session req of
                                  None \<Rightarrow> []
                                | Some s \<Rightarrow> (if has_touch s then [Touch] else []));
                       backfill = (case req_session req of
                                     None \<Rightarrow> False
                                   | Some s \<Rightarrow> \<not> isSessionValid req \<and> \<not> truthy_num (uid s));
                       session' = (case req_session req of
                                     None \<Rightarrow> None
                                   | Some s \<Rightarrow>
                                       (if backfill then Some (s\<lparr>uid := Some userId\<rparr>)
                                        else Some s));
                       save = (case req_session req of
                                 None \<Rightarrow> []
                               | Some s \<Rightarrow> (if backfill \<and> has_save s then [Save] else []))
                   in \<lparr>sc_status = 200,
                       sc_body =
                         \<lparr>sb_isValid = True, sb_error = None, sb_sessionExists = None,
                          sb_sessionValid = Some (isSessionValid req),
                          sb_sessionID = (if truthy_str (req_sessionID req)
                                          then req_sessionID req else None),
                          sb_token = Some newToken,
                          sb_user = Some (session_user_json toUpperCase user)\<rparr>,
                       sc_cookie = Some (jwt_cookie e newToken),
                       sc_userId = Some userId, sc_session = session',
                       sc_calls = touch @ save\<rparr>))))"

section \<open>Login, registration, account update\<close>

record login_user = user_json +
  lu_created_at :: int
  lu_updated_at :: int

record login_body =
  lb_success :: bool
  lb_message :: string
  lb_user :: "login_user option"
  lb_token :: "string option"
  lb_sessionStatus :: "string option"
  lb_sessionID :: "string option"
  lb_needsVerification :: "bool option"
  lb_error :: "string option"

text \<open>
  What a login does besides answering: the \<open>Set-Cookie\<close> header, the session after it,
  the calls on the session, the payloads handed to \<open>jwt.sign\<close>, the database after it,
  and the verification mails it tries to send (address, token).
\<close>

record login_result =
  lg_status :: int
  lg_body :: login_body
  lg_cookie :: "string option"
  lg_session :: "session option"
  lg_calls :: "session_call list"
  lg_signed :: "claims list"
  lg_db :: db
  lg_emails :: "(string \<times> string) list"

definition login_reply :: "int \<Rightarrow> string \<Rightarrow> db \<Rightarrow> request \<Rightarrow> login_result" where
  "login_reply st msg d req =
     \<lparr>lg_status = st,
      lg_body = \<lparr>lb_success = False, lb_message = msg, lb_user = None, lb_token = None,
                 lb_sessionStatus = None, lb_sessionID = None, lb_needsVerification = None,
                 lb_error = None\<rparr>,
      lg_cookie = None, lg_session = req_session req, lg_calls = [], lg_signed = [],
      lg_db = d, lg_emails = []\<rparr>"

text \<open>The message of the error a rejected query carries; the driver chooses it.\<close>

definition query_error_message :: string where
  "query_error_message = ''query failed''"

definition one_day_ms :: int where
  "one_day_ms = 24 * 60 * 60 * 1000"

definition formattedUser :: "(string \<Rightarrow> string) \<Rightarrow> user_row \<Rightarrow> login_user" where
  "formattedUser toUpperCase u =
     \<lparr>uj_id = u_id u, uj_email = u_email u, uj_full_name = u_full_name u,
      uj_avatar_url = u_avatar_url u, uj_tier = tier_or_basic u,
      uj_is_verified = verified_or_false u,
      uj_initials = getInitials toUpperCase (u_full_name u),
      lu_created_at = u_created_at u, lu_updated_at = u_updated_at u\<rparr>"

text \<open>
  The branch of an unverified user when \<open>EMAIL_VERIFICATION\<close> is \<open>'true'\<close>: a missing or
  expired verification token is replaced (\<open>new Date(null)\<close> is the epoch) and mailed; the
  answer is 403 either way.
\<close>

definition login_unverified :: "string \<Rightarrow> int \<Rightarrow> db \<Rightarrow> request \<Rightarrow> user_row \<Rightarrow> login_result" where
  "login_unverified randomToken now d req user =
     (let renew = (\<not> truthy_str (u_verification_token user)
                   \<or> now > (case u_verification_token_expiry user of None \<Rightarrow> 0 | Some t \<Rightarrow> t));
          d' = (if renew then
                  d\<lparr>users := map (\<lambda>u. if u_id u = u_id user
                                       then u\<lparr>u_verification_token := Some randomToken,
                                              u_verification_token_expiry := Some (now + one_day_ms),
                                              u_updated_at := now\<rparr>
                                       else u) (users d)\<rparr>
                else d)
      in (login_reply 403 ''Please verify your email before logging in'' d' req)
           \<lparr>lg_body := (lg_body (login_reply 403
                           ''Please verify your email before logging in'' d' req))
                         \<lparr>lb_needsVerification := Some True\<rparr>,
            lg_emails := (if renew then [(u_email user, randomToken)] else [])\<rparr>)"

text \<open>
  The end of a successful login: the token, the session (its \<open>uid\<close> set, then saved), the
  cookie and the 200 answer. The source's read-back test \<open>req.session.uid !== user.id\<close>
  directly after the assignment cannot hold and is left out.
\<close>

definition login_success ::
  "(string \<Rightarrow> string) \<Rightarrow> env \<Rightarrow> (claims \<Rightarrow> string \<Rightarrow> string) \<Rightarrow> db \<Rightarrow> request \<Rightarrow> user_row \<Rightarrow> login_result" where
  "login_success toUpperCase e sign d req user =
     (let token = sign (token_payload user) ''30d'';
          sessionStatus =
            (case req_session req of
               None \<Rightarrow> ''unavailable''
             | Some s \<Rightarrow> (if has_save s \<and> save_fails s then ''error-saving'' else ''active''));
          sessionID = (case req_session req of None \<Rightarrow> None | Some s \<Rightarrow> req_sessionID req)
      in \<lparr>lg_status = 200,
          lg_body = \<lparr>lb_success = True, lb_message = ''Logged in successfully'',
                     lb_user = Some (formattedUser toUpperCase user), lb_token = Some token,
                     lb_sessionStatus = Some sessionStatus, lb_sessionID = sessionID,
                     lb_needsVerification = None, lb_error = None\<rparr>,
          lg_cookie = Some (jwt_cookie e token),
          lg_session = (case req_session req of
                          None \<Rightarrow> None
                        | Some s \<Rightarrow> Some (s\<lparr>uid := Some (u_id user)\<rparr>)),
          lg_calls = (case req_session req of
                        None \<Rightarrow> []
                      | Some s \<Rightarrow> (if has_save s then [Save] else [])),
          lg_signed = [token_payload user],
          lg_db = d, lg_emails = []\<rparr>)"

text \<open>
  \<open>POST /api/auth/login\<close>. \<open>compare\<close> is \<open>bcrypt.compare(password, hash)\<close>,
  \<open>randomToken\<close> the value of \<open>crypto.randomBytes(32).toString('hex')\<close>, \<open>now\<close> the clock,
  \<open>toUpperCase\<close> the conversion \<open>getInitials\<close> calls.
\<close>

definition login ::
  "(string \<Rightarrow> string) \<Rightarrow> env \<Rightarrow> (claims \<Rightarrow> string \<Rightarrow> string) \<Rightarrow> (string \<Rightarrow> string \<Rightarrow> bool) \<Rightarrow> string \<Rightarrow> int
   \<Rightarrow> db \<Rightarrow> request \<Rightarrow> string option \<Rightarrow> string option \<Rightarrow> login_result" where
  "login toUpperCase e sign compare randomToken now d req email password =
     (if \<not> truthy_str email \<or> \<not> truthy_str password then
        login_reply 400 ''Email and password are required'' d req
      else if \<not> db_up d then
        (login_reply 500 ''Failed to login'' d req)
          \<lparr>lg_body := (lg_body (login_reply 500 ''Failed to login'' d req))
                        \<lparr>lb_error := Some query_error_message\<rparr>\<rparr>
      else
        (case filter (\<lambda>u. u_email u = the email) (users d) of
           [] \<Rightarrow> login_reply 401 ''Invalid credentials'' d req
         | user # _ \<Rightarrow>
             (if \<not> compare (the password) (u_password user) then
                login_reply 401 ''Invalid credentials'' d req
              else if email_verification e \<and> \<not> verified_or_false user then
                login_unverified randomToken now d req user
              else login_success toUpperCase e sign d req user)))"

record register_user =
  ru_id :: int
  ru_email :: string
  ru_fullName :: "string option"
  ru_is_verified :: "bool option"

record register_body =
  rb_error :: "string option"
  rb_message :: "string option"
  rb_user :: "register_user option"

datatype user_query = SelectUserByEmail string | InsertUser user_row

text \<open>
  What a registration does besides answering: the database after it, the queries it
  sent to \<open>pool.query\<close>, in order, and the verification mails it tries to send.
\<close>

record register_result =
  rg_status :: int
  rg_body :: register_body
  rg_db :: db
  rg_queries :: "user_query list"
  rg_emails :: "(string \<times> string) list"

text \<open>
  The row the \<open>INSERT\<close> creates. The columns the statement does not name take the
  defaults of the table, which index.js does not show; they are empty here.
\<close>

definition new_user_row :: "int \<Rightarrow> string \<Rightarrow> string \<Rightarrow> string \<Rightarrow> string \<Rightarrow> int \<Rightarrow> user_row" where
  "new_user_row i email hashedPassword fullName verificationToken now =
     \<lparr>u_id = i, u_email = email, u_password = hashedPassword, u_full_name = Some fullName,
      u_avatar_url = None, u_tier = None, u_is_verified = Some False, u_country = None,
      u_verification_token = Some verificationToken,
      u_verification_token_expiry = Some (now + one_day_ms),
      u_created_at = now, u_updated_at = now\<rparr>"

text \<open>
  \<open>POST /api/auth/register\<close>. \<open>hash\<close> is \<open>bcrypt.hash\<close> with a fresh salt.
\<close>

definition register ::
  "env \<Rightarrow> (string \<Rightarrow> string) \<Rightarrow> string \<Rightarrow> int \<Rightarrow> db
   \<Rightarrow> string option \<Rightarrow> string option \<Rightarrow> string option \<Rightarrow> register_result" where
  "register e hash randomToken now d email password fullName =
     (if \<not> truthy_str email \<or> \<not> truthy_str password \<or> \<not> truthy_str fullName then
        \<lparr>rg_status = 400,
         rg_body = \<lparr>rb_error = Some ''All fields are required'', rb_message = None,
                    rb_user = None\<rparr>,
         rg_db = d, rg_queries = [], rg_emails = []\<rparr>
      else if \<not> db_up d then
        \<lparr>rg_status = 500,
         rg_body = \<lparr>rb_error = Some ''Failed to register user'', rb_message = None,
                    rb_user = None\<rparr>,
         rg_db = d, rg_queries = [SelectUserByEmail (the email)], rg_emails = []\<rparr>
      else if filter (\<lambda>u. u_email u = the email) (users d) \<noteq> [] then
        \<lparr>rg_status = 400,
         rg_body = \<lparr>rb_error = Some ''User already exists'', rb_message = None,
                    rb_user = None\<rparr>,
         rg_db = d, rg_queries = [SelectUserByEmail (the email)], rg_emails = []\<rparr>
      else
        (let row = new_user_row (next_user_id d) (the email) (hash (the password))
                     (the fullName) randomToken now
         in \<lparr>rg_status = 201,
             rg_body = \<lparr>rb_error = None,
                        rb_message = Some
                          ''User registered successfully. Please check your email to verify your account.'',
                        rb_user = Some \<lparr>ru_id = u_id row, ru_email = u_email row,
                                        ru_fullName = u_full_name row,
                                        ru_is_verified = u_is_verified row\<rparr>\<rparr>,
             rg_db = d\<lparr>users := users d @ [row], next_user_id := next_user_id d + 1\<rparr>,
             rg_queries = [SelectUserByEmail (the email), InsertUser row],
             rg_emails = (if email_verification e then [(the email, randomToken)] else [])\<rparr>))"

record account_user = user_json +
  au_country :: "string option"

record account_body =
  ab_success :: "bool option"
  ab_message :: "string option"
  ab_error :: "string option"
  ab_user :: "account_user option"

record account_result =
  ac_status :: int
  ac_body :: account_body
  ac_db :: db

definition account_reply :: "int \<Rightarrow> string \<Rightarrow> db \<Rightarrow> account_result" where
  "account_reply st err d =
     \<lparr>ac_status = st,
      ac_body = \<lparr>ab_success = None, ab_message = None, ab_error = Some err, ab_user = None\<rparr>,
      ac_db = d\<rparr>"

text \<open>
  The handler of \<open>POST /api/account\<close>, which runs after \<open>loginRequired\<close> has passed the
  request: the id of the session first, then the one of \<open>req.user\<close>.
\<close>

definition account_userId :: "request \<Rightarrow> int option" where
  "account_userId req =
     (case session_uid req of
        Some i \<Rightarrow> Some i
      | None \<Rightarrow>
          (case req_user req of
             None \<Rightarrow> None
           | Some u \<Rightarrow> (if truthy_num (c_id u) then c_id u else None)))"

definition account_update ::
  "(string \<Rightarrow> string) \<Rightarrow> int \<Rightarrow> db \<Rightarrow> request \<Rightarrow> string option \<Rightarrow> string option \<Rightarrow> account_result" where
  "account_update toUpperCase now d req full_name country =
     (case account_userId req of
        None \<Rightarrow> account_reply 401 ''Authentication required'' d
      | Some userId \<Rightarrow>
          (if \<not> truthy_str full_name then account_reply 400 ''Full name is required'' d
           else if \<not> db_up d then
             (account_reply 500 ''Failed to update profile'' d)
               \<lparr>ac_body := (ac_body (account_reply 500 ''Failed to update profile'' d))
                             \<lparr>ab_success := Some False,
                              ab_message := Some query_error_message\<rparr>\<rparr>
           else
             (let upd = (\<lambda>u. u\<lparr>u_full_name := full_name,
                                u_country := (if truthy_str country then country else None),
                                u_updated_at := now\<rparr>);
                  d' = d\<lparr>users := map (\<lambda>u. if u_id u = userId then upd u else u) (users d)\<rparr>
              in (case filter (\<lambda>u. u_id u = userId) (users d') of
                    [] \<Rightarrow> account_reply 404 ''User not found'' d'
                  | updatedUser # _ \<Rightarrow>
                      \<lparr>ac_status = 200,
                       ac_body =
                         \<lparr>ab_success = Some True,
                          ab_message = Some ''Profile updated successfully'',
                          ab_error = None,
                          ab_user = Some
                            \<lparr>uj_id = u_id updatedUser, uj_email = u_email updatedUser,
                             uj_full_name = u_full_name updatedUser,
                             uj_avatar_url = u_avatar_url updatedUser,
                             uj_tier = tier_or_basic updatedUser,
                             uj_is_verified = verified_or_false updatedUser,
                             uj_initials = getInitials toUpperCase (u_full_name updatedUser),
                             au_country = u_country updatedUser\<rparr>\<rparr>,
                       ac_db = d'\<rparr>))))"

section \<open>Bookmark categories\<close>















section \<open>The Twitter profile cache\<close>

text \<open>
  \<open>twitterCache.profiles\<close>: a map from the lower-cased username to the payload and the
  time it was stored. The payload (\<open>twitterData.data\<close>) is kept as its JSON text.
\<close>

record profile_entry =
  pe_data :: string
  pe_timestamp :: int

type_synonym profile_cache = "string \<Rightarrow> profile_entry option"

definition PROFILE_CACHE_TTL :: int where
  "PROFILE_CACHE_TTL = 15 * 60 * 1000"

text \<open>
  The answer of the upstream API to one \<open>fetch\<close>: its status, the \<open>data\<close> member of a
  successful body and the \<open>detail\<close> member of an error body. \<open>response.ok\<close> is a status
  from 200 to 299.
\<close>

record upstream_response =
  up_status :: int
  up_data :: string
  up_detail :: "string option"

definition up_ok :: "upstream_response \<Rightarrow> bool" where
  "up_ok r = (200 \<le> up_status r \<and> up_status r \<le> 299)"

datatype profile_body = Payload string | Failure string "string option"

text \<open>
  What a profile request does besides answering: the cache after it and the upstream
  calls it made (username, API key).
\<close>

record profile_result =
  pr_status :: int
  pr_body :: profile_body
  pr_cache :: profile_cache
  pr_fetches :: "(string \<times> string) list"

text \<open>
  \<open>getTwitterApiKey\<close>: the key of the connected Twitter profile with the cleaned
  username (\<open>trim\<close> is \<open>username.trim()\<close>), else \<open>TWITTER_BEARER_TOKEN\<close>, else \<open>null\<close>; a
  rejected query is caught and gives \<open>null\<close>.
\<close>

definition getTwitterApiKey :: "(string \<Rightarrow> string) \<Rightarrow> env \<Rightarrow> db \<Rightarrow> string \<Rightarrow> string option" where
  "getTwitterApiKey trim e d username =
     (let trimmed = trim username;
          cleanUsername = (if startsWith trimmed ''@'' then substring trimmed 1 else trimmed)
      in if \<not> db_up d then None
         else
           (case filter (\<lambda>p. sp_platform p = ''twitter'' \<and> sp_username p = cleanUsername
                              \<and> sp_connected p) (social_profiles d) of
              p # _ \<Rightarrow>
                (if truthy_str (sp_api_key p) then sp_api_key p
                 else if truthy_str (twitter_bearer_token e) then twitter_bearer_token e
                 else None)
            | [] \<Rightarrow>
                (if truthy_str (twitter_bearer_token e) then twitter_bearer_token e
                 else None)))"

definition profile_reply ::
  "int \<Rightarrow> profile_body \<Rightarrow> profile_cache \<Rightarrow> (string \<times> string) list \<Rightarrow> profile_result" where
  "profile_reply st b c fs = \<lparr>pr_status = st, pr_body = b, pr_cache = c, pr_fetches = fs\<rparr>"

text \<open>
  \<open>GET /api/twitter-profile\<close>. \<open>toLowerCase\<close> and \<open>trim\<close> are the conversions of the
  runtime. \<open>fetch username apiKey\<close> is the answer of the upstream API, or \<open>Inl\<close> with
  the message of the error when the call or the reading of its body throws (the
  handler's 500 carries that message); \<open>now\<close> is the clock when the cache is read,
  \<open>later\<close> when the answer is stored.
\<close>

definition twitter_profile ::
  "(string \<Rightarrow> string) \<Rightarrow> (string \<Rightarrow> string) \<Rightarrow> env
   \<Rightarrow> (string \<Rightarrow> string \<Rightarrow> string + upstream_response) \<Rightarrow> int \<Rightarrow> int \<Rightarrow> db
   \<Rightarrow> profile_cache \<Rightarrow> string option \<Rightarrow> profile_result" where
  "twitter_profile toLowerCase trim e fetch now later d cache username =
     (if \<not> truthy_str username then
        profile_reply 400 (Failure ''Missing username parameter'' None) cache []
      else
        (let name = the username;
             cacheKey = toLowerCase name;
             cachedProfile = cache cacheKey
         in if (case cachedProfile of
                  None \<Rightarrow> False
                | Some entry \<Rightarrow> pe_timestamp entry > now - PROFILE_CACHE_TTL)
            then profile_reply 200 (Payload (pe_data (the cachedProfile))) cache []
            else
              (case getTwitterApiKey trim e d name of
                 None \<Rightarrow>
                   profile_reply 404
                     (Failure ''Twitter API key not found for this user'' None) cache []
               | Some apiKey \<Rightarrow>
                   (case fetch name apiKey of
                      Inl msg \<Rightarrow>
                        profile_reply 500 (Failure ''Server error'' (Some msg)) cache
                          [(name, apiKey)]
                    | Inr twitterResponse \<Rightarrow>
                        (if up_status twitterResponse = 401 then
                           profile_reply 401
                             (Failure ''Invalid Twitter credentials''
                                (Some ''The Twitter API key is invalid or expired.''))
                             cache [(name, apiKey)]
                         else if up_status twitterResponse = 429 then
                           (case cachedProfile of
                              Some entry \<Rightarrow>
                                profile_reply 200 (Payload (pe_data entry)) cache
                                  [(name, apiKey)]
                            | None \<Rightarrow>
                                profile_reply 429
                                  (Failure ''Twitter API rate limit exceeded''
                                     (Some ''Please try again later.''))
                                  cache [(name, apiKey)])
                         else if up_status twitterResponse = 404 then
                           profile_reply 404
                             (Failure ''Twitter user not found''
                                (Some (''No Twitter profile found for username: '' @ name)))
                             cache [(name, apiKey)]
                         else if \<not> up_ok twitterResponse then
                           profile_reply (up_status twitterResponse)
                             (Failure ''Twitter API error''
                                (if truthy_str (up_detail twitterResponse)
                                 then up_detail twitterResponse
                                 else Some ''An error occurred while fetching Twitter data''))
                             cache [(name, apiKey)]
                         else
                           profile_reply 200 (Payload (up_data twitterResponse))
                             (cache(cacheKey \<mapsto>
                                \<lparr>pe_data = up_data twitterResponse, pe_timestamp = later\<rparr>))
                             [(name, apiKey)])))))"

section \<open>Reconnecting the session store\<close>

text \<open>
  The session store as the two reconnect paths of index.js see it: whether it has a
  \<open>connect\<close> function, its \<open>connected\<close> property (absent, true or false), the timers
  that \<open>setTimeout\<close> has pending (the time each one is due) and the times at which
  \<open>connect()\<close> was called. \<open>st_clock\<close> is the current time in milliseconds.
\<close>

record store_state =
  st_clock :: int
  st_has_connect :: bool
  st_connected :: "bool option"
  st_timers :: "int list"
  st_connect_calls :: "int list"

text \<open>
  \<open>initSessionStore\<close>: the store of connect-pg-simple with schema and table name,
  when its constructor throws the same store with the qualified table name, and
  when that throws too the \<open>MemoryStore\<close> of express-session.
\<close>

datatype store_kind = PgStore | PgStoreQualified | MemoryStore

definition initSessionStore :: "bool \<Rightarrow> bool \<Rightarrow> store_kind" where
  "initSessionStore primary_throws secondary_throws =
     (if \<not> primary_throws then PgStore
      else if \<not> secondary_throws then PgStoreQualified
      else MemoryStore)"

text \<open>
  The store object at the time \<open>now\<close> it is built. Neither the store of
  connect-pg-simple nor \<open>MemoryStore\<close> defines a \<open>connect\<close> function or a \<open>connected\<close>
  property; no timer is pending and \<open>connect\<close> has not been called.
\<close>

definition new_store :: "store_kind \<Rightarrow> int \<Rightarrow> store_state" where
  "new_store kind now =
     (case kind of
        PgStore \<Rightarrow>
          \<lparr>st_clock = now, st_has_connect = False, st_connected = None, st_timers = [],
           st_connect_calls = []\<rparr>
      | PgStoreQualified \<Rightarrow>
          \<lparr>st_clock = now, st_has_connect = False, st_connected = None, st_timers = [],
           st_connect_calls = []\<rparr>
      | MemoryStore \<Rightarrow>
          \<lparr>st_clock = now, st_has_connect = False, st_connected = None, st_timers = [],
           st_connect_calls = []\<rparr>)"

text \<open>
  The handler of the store's \<open>'error'\<close> event:
  \<^verbatim>\<open>if (typeof sessionStore.connect === 'function') {
    setTimeout(() => { try { sessionStore.connect(); } catch (e) { ... } }, 5000); }\<close>
\<close>

definition store_error :: "store_state \<Rightarrow> store_state" where
  "store_error st =
     (if st_has_connect st then st\<lparr>st_timers := st_timers st @ [st_clock st + 5000]\<rparr>
      else st)"

text \<open>
  The middleware that checks the store on each request:
  \<^verbatim>\<open>if (!req.session && req.sessionStore && req.sessionStore.connected === false) {
    if (typeof req.sessionStore.connect === 'function') { req.sessionStore.connect(); } }\<close>
  \<open>has_store\<close> says whether \<open>req.sessionStore\<close> is set.
\<close>

definition store_check :: "bool \<Rightarrow> bool \<Rightarrow> store_state \<Rightarrow> store_state" where
  "store_check has_session has_store st =
     (if \<not> has_session \<and> has_store \<and> st_connected st = Some False \<and> st_has_connect st
      then st\<lparr>st_connect_calls := st_connect_calls st @ [st_clock st]\<rparr>
      else st)"

text \<open>Time passes: the timers that are due call \<open>connect()\<close>, the others stay pending.\<close>

definition advance :: "int \<Rightarrow> store_state \<Rightarrow> store_state" where
  "advance dt st =
     st\<lparr>st_clock := st_clock st + dt,
        st_timers := filter (\<lambda>t. t > st_clock st + dt) (st_timers st),
        st_connect_calls := st_connect_calls st
                            @ filter (\<lambda>t. t \<le> st_clock st + dt) (st_timers st)\<rparr>"

datatype store_event = StoreError | StoreCheck bool bool | Advance int

fun store_step :: "store_state \<Rightarrow> store_event \<Rightarrow> store_state" where
  "store_step st StoreError = store_error st"
| "store_step st (StoreCheck has_session has_store) = store_check has_session has_store st"
| "store_step st (Advance dt) = advance dt st"

definition store_run :: "store_event list \<Rightarrow> store_state \<Rightarrow> store_state" where
  "store_run evs st = foldl store_step st evs"

section \<open>The credential codec\<close>

text \<open>
  Modelled from the spec: the signing and verification of bearer tokens, which
  index.js calls as \<open>jwt.sign\<close> and \<open>jwt.verify\<close> of the jsonwebtoken package and does
  not define. Specification 4.1: \<open>issue(identity, ttl)\<close> serialises the identity claims
  plus the expiry and signs them with the process-wide secret; \<open>verify(token)\<close> checks
  the signature integrity and the expiry and fails with \<open>ExpiredToken\<close> or
  \<open>MalformedToken\<close>. The signature is modelled by the secret the token was signed
  with. The specification is silent on the expiry instant itself; the model counts it
  as expired.
\<close>

record bearer_token =
  bt_claims :: claims
  bt_exp :: int
  bt_key :: string

datatype verify_failure = ExpiredToken | MalformedToken

definition issue :: "string \<Rightarrow> int \<Rightarrow> claims \<Rightarrow> int \<Rightarrow> bearer_token" where
  "issue secret now identity ttl = \<lparr>bt_claims = identity, bt_exp = now + ttl, bt_key = secret\<rparr>"

definition verify_token :: "string \<Rightarrow> int \<Rightarrow> bearer_token \<Rightarrow> verify_failure + claims" where
  "verify_token secret now t =
     (if bt_key t \<noteq> secret then Inl MalformedToken
      else if bt_exp t \<le> now then Inl ExpiredToken
      else Inr (bt_claims t))"

text \<open>
  The callers wrap \<open>jwt.verify\<close> in \<open>try\<close>/\<open>catch\<close>, log the failure and go on with no
  identity (as \<open>loginRequired\<close> does for the header and for the cookie token).
\<close>

definition verified_identity :: "string \<Rightarrow> int \<Rightarrow> bearer_token \<Rightarrow> claims option" where
  "verified_identity secret now t =
     (case verify_token secret now t of Inl _ \<Rightarrow> None | Inr c \<Rightarrow> Some c)"

text \<open>The lifetime the login and the session-check endpoint ask for: \<open>'30d'\<close>.\<close>

definition thirty_days :: int where
  "thirty_days = 30 * 24 * 60 * 60 * 1000"

section \<open>The middleware stack\<close>

text \<open>
  Express keeps the layers of the application in the order of their registration and
  hands a request to them in that order. A middleware changes the request and calls
  \<open>next()\<close>; a route whose method and path match answers the request (through
  \<open>loginRequired\<close> first, where it is named) and does not call \<open>next()\<close>; an error
  middleware is passed over by a request that carries no error; the 404 handler
  answers every request that reaches it.
\<close>

datatype layer =
    Use "request \<Rightarrow> request"
  | Route string string
  | ErrorMiddleware
  | NotFound

text \<open>The pieces of a path between slashes; a piece of a route that starts with \<open>:\<close> is a parameter.\<close>

fun segments :: "string \<Rightarrow> string list" where
  "segments [] = [[]]"
| "segments (c # cs) =
     (if c = CHR ''/'' then [] # segments cs
      else (case segments cs of
              w # ws \<Rightarrow> (c # w) # ws
            | [] \<Rightarrow> [[c]]))"

definition path_matches :: "string \<Rightarrow> string \<Rightarrow> bool" where
  "path_matches route url =
     list_all2 (\<lambda>r p. if startsWith r '':'' then p \<noteq> [] else r = p)
       (segments route) (segments url)"

text \<open>
  The request as the handler of the matching route receives it, \<open>None\<close> when no route
  answers (the 404 handler, or the end of the stack).
\<close>

fun request_at :: "layer list \<Rightarrow> string \<Rightarrow> string \<Rightarrow> request \<Rightarrow> request option" where
  "request_at [] verb url req = None"
| "request_at (Use f # ls) verb url req = request_at ls verb url (f req)"
| "request_at (Route m p # ls) verb url req =
     (if m = verb \<and> path_matches p url then Some req
      else request_at ls verb url req)"
| "request_at (ErrorMiddleware # ls) verb url req = request_at ls verb url req"
| "request_at (NotFound # ls) verb url req = None"

text \<open>
  The middleware of express-session: it sets \<open>req.session\<close> and \<open>req.sessionID\<close>, to
  the session the store holds for the session cookie of the request (\<open>load\<close>, the
  store read through the cookie), else to a new session with the id \<open>genid\<close> gives.
\<close>

definition express_session ::
  "(string option \<Rightarrow> (string \<times> session) option) \<Rightarrow> string \<Rightarrow> request \<Rightarrow> request" where
  "express_session load genid req =
     (case load (req_cookie req) of
        Some (sid, s) \<Rightarrow> req\<lparr>req_session := Some s, req_sessionID := Some sid\<rparr>
      | None \<Rightarrow>
          req\<lparr>req_session := Some \<lparr>uid = None, has_save = True, has_destroy = True,
                                    has_touch = True, save_fails = False\<rparr>,
              req_sessionID := Some genid\<rparr>)"

text \<open>
  The middleware after it (index.js 279): a request without a session gets a
  placeholder with \<open>save\<close>, \<open>destroy\<close> and \<open>touch\<close>, and when its bearer token verifies,
  \<open>req.user\<close> and the placeholder's \<open>uid\<close> are set from the token.
\<close>

definition placeholder_session :: "(string \<Rightarrow> claims option) \<Rightarrow> request \<Rightarrow> request" where
  "placeholder_session verify req =
     (case req_session req of
        Some s \<Rightarrow> req
      | None \<Rightarrow>
          (let dummy = \<lparr>uid = None, has_save = True, has_destroy = True, has_touch = True,
                        save_fails = False\<rparr>
           in if truthy_str (req_authorization req)
                 \<and> startsWith (the (req_authorization req)) ''Bearer ''
              then (case verify (substring (the (req_authorization req)) 7) of
                      None \<Rightarrow> req\<lparr>req_session := Some dummy\<rparr>
                    | Some decoded \<Rightarrow>
                        req\<lparr>req_session := Some (dummy\<lparr>uid := c_id decoded\<rparr>),
                            req_user := Some decoded\<rparr>)
              else req\<lparr>req_session := Some dummy\<rparr>))"

text \<open>
  The middleware that checks the token when the session gives no user (index.js 357).
\<close>

definition jwt_fallback :: "(string \<Rightarrow> claims option) \<Rightarrow> request \<Rightarrow> request" where
  "jwt_fallback verify req =
     (if session_uid req = None
         \<and> truthy_str (req_authorization req)
         \<and> startsWith (the (req_authorization req)) ''Bearer ''
      then (case verify (substring (the (req_authorization req)) 7) of
              None \<Rightarrow> req
            | Some decoded \<Rightarrow> req\<lparr>req_user := Some decoded\<rparr>)
      else req)"

text \<open>
  The layers index.js registers while the module is evaluated, in the order of the
  file. First the body parsers and \<open>cors\<close> (which hands on a request that names no
  origin or an allowed one), the health route, the store check of line 396 and the
  routes; the three parsers and the store check leave what the model keeps of a
  request as it is.
\<close>

definition route_layers :: "layer list" where
  "route_layers =
     [Use id, Use id, Use id,
      Route ''GET'' ''/api/health'',
      Use id,
      Route ''POST'' ''/api/auth/register'',
      Route ''GET'' ''/api/auth/verify-email'',
      Route ''POST'' ''/api/auth/login'',
      Route ''POST'' ''/api/auth/logout'',
      Route ''GET'' ''/api/bookmarks'',
      Route ''POST'' ''/api/bookmarks'',
      Route ''PUT'' ''/api/bookmarks/:id'',
      Route ''DELETE'' ''/api/bookmarks/:id'',
      Route ''POST'' ''/api/bookmarks/category'',
      Route ''PUT'' ''/api/bookmarks/category'',
      Route ''DELETE'' ''/api/bookmarks/category/:id'',
      Route ''POST'' ''/api/account'',
      Route ''GET'' ''/api/auth/session'',
      Route ''POST'' ''/api/auth/forgot-password'',
      Route ''POST'' ''/api/auth/reset-password'',
      Route ''GET'' ''/api/notes'',
      Route ''POST'' ''/api/notes'',
      Route ''DELETE'' ''/api/notes/:id'',
      Route ''GET'' ''/api/hacking-profiles'',
      Route ''POST'' ''/api/connect-platform'',
      Route ''POST'' ''/api/disconnect-platform'',
      Route ''GET'' ''/api/social-profiles'',
      Route ''POST'' ''/api/connect-social'',
      Route ''POST'' ''/api/disconnect-social'',
      Route ''GET'' ''/api/tryhackme/rank/:username'',
      Route ''GET'' ''/api/tryhackme/badges/:username'',
      Route ''GET'' ''/api/tryhackme/rooms/:username'',
      Route ''GET'' ''/api/tryhackme/user/:username'',
      Route ''GET'' ''/api/tryhackme/tickets/:username'',
      Route ''GET'' ''/api/twitter-profile'',
      Route ''GET'' ''/api/twitter-tweets'']"

text \<open>
  Then the global error handler (2511), the 404 handler (2561) and the debugging
  middleware (2574).
\<close>

definition module_layers :: "layer list" where
  "module_layers = route_layers @ [ErrorMiddleware, NotFound, Use id]"

text \<open>
  The layers of the asynchronous block of lines 224 to 377. The block waits for
  \<open>initSessionStore()\<close> before it registers anything, so its layers are registered
  after the module has been evaluated to its end: express-session (275), the
  placeholder middleware (279), the session error middleware (319) and the token
  middleware (357).
\<close>

definition deferred_layers ::
  "(string option \<Rightarrow> (string \<times> session) option) \<Rightarrow> string \<Rightarrow> (string \<Rightarrow> claims option)
   \<Rightarrow> layer list" where
  "deferred_layers load genid verify =
     [Use (express_session load genid), Use (placeholder_session verify), ErrorMiddleware,
      Use (jwt_fallback verify)]"

definition app_layers ::
  "(string option \<Rightarrow> (string \<times> session) option) \<Rightarrow> string \<Rightarrow> (string \<Rightarrow> claims option)
   \<Rightarrow> layer list" where
  "app_layers load genid verify = module_layers @ deferred_layers load genid verify"

text \<open>
  An HTTP request, by what the handlers of the model read of it, and the \<open>req\<close> object
  Express builds for it: no session, no session id and no user yet.
\<close>

record http_request =
  hr_method :: string
  hr_path :: string
  hr_authorization :: "string option"
  hr_cookie :: "string option"

definition incoming :: "http_request \<Rightarrow> request" where
  "incoming h =
     \<lparr>req_session = None, req_sessionID = None, req_authorization = hr_authorization h,
      req_cookie = hr_cookie h, req_user = None\<rparr>"

text \<open>The request a route handler (or \<open>loginRequired\<close> before it) receives for an HTTP request.\<close>

definition handler_request ::
  "(string option \<Rightarrow> (string \<times> session) option) \<Rightarrow> string \<Rightarrow> (string \<Rightarrow> claims option)
   \<Rightarrow> http_request \<Rightarrow> request option" where
  "handler_request load genid verify h =
     request_at (app_layers load genid verify) (hr_method h) (hr_path h) (incoming h)"

section \<open>Example data\<close>

text \<open>
  Conversions for the examples: on a string of ASCII characters they give what
  \<open>toUpperCase\<close>, \<open>toLowerCase\<close> and \<open>trim\<close> give, and the examples use them on such
  strings only.
\<close>

definition ascii_upper :: "string \<Rightarrow> string" where
  "ascii_upper s =
     map (\<lambda>c. case map_of (zip ''abcdefghijklmnopqrstuvwxyz'' ''ABCDEFGHIJKLMNOPQRSTUVWXYZ'') c of
                 Some d \<Rightarrow> d | None \<Rightarrow> c) s"

definition ascii_lower :: "string \<Rightarrow> string" where
  "ascii_lower s =
     map (\<lambda>c. case map_of (zip ''ABCDEFGHIJKLMNOPQRSTUVWXYZ'' ''abcdefghijklmnopqrstuvwxyz'') c of
                 Some d \<Rightarrow> d | None \<Rightarrow> c) s"

definition ascii_trim :: "string \<Rightarrow> string" where
  "ascii_trim s =
     rev (dropWhile (\<lambda>c. c = CHR '' '') (rev (dropWhile (\<lambda>c. c = CHR '' '') s)))"

definition alice :: user_row where
  "alice = \<lparr>u_id = 1, u_email = ''alice@example.com'', u_password = ''hash-a'',
     u_full_name = Some ''Alice Liddell'', u_avatar_url = None, u_tier = None,
     u_is_verified = Some True, u_country = None, u_verification_token = None,
     u_verification_token_expiry = None, u_created_at = 1000, u_updated_at = 1000\<rparr>"

definition bob :: user_row where
  "bob = \<lparr>u_id = 2, u_email = ''bob@example.com'', u_password = ''hash-b'',
     u_full_name = Some ''bob'', u_avatar_url = None, u_tier = Some ''pro'',
     u_is_verified = None, u_country = None, u_verification_token = None,
     u_verification_token_expiry = None, u_created_at = 2000, u_updated_at = 2000\<rparr>"

definition example_db :: db where
  "example_db = \<lparr>db_up = True, users = [alice, bob], next_user_id = 3, categories = [],
     next_category_id = 1, social_profiles = []\<rparr>"

definition dev_env :: env where
  "dev_env = \<lparr>production = False, email_verification = False, twitter_bearer_token = None\<rparr>"

text \<open>A signing function that shows every claim of the payload it signs.\<close>

definition sign_example :: "claims \<Rightarrow> string \<Rightarrow> string" where
  "sign_example c ttl =
     ''token:'' @ c_email c @ '':'' @ (case c_full_name c of None \<Rightarrow> [] | Some n \<Rightarrow> n)
       @ '':'' @ c_tier c @ '':'' @ (if c_is_verified c then ''verified'' else ''unverified'')
       @ '':'' @ ttl"

text \<open>
  Two tokens verify: the current token of user 2, and a stale one he got before his
  email, name and tier changed.
\<close>

definition stale_claims :: claims where
  "stale_claims = \<lparr>c_id = Some 2, c_email = ''bobby@old.example.com'',
     c_full_name = Some ''Bobby Old'', c_tier = ''basic'', c_is_verified = True\<rparr>"

definition verify_example :: "string \<Rightarrow> claims option" where
  "verify_example t =
     (if t = ''bob-token'' then Some (token_payload bob)
      else if t = ''stale-token'' then Some stale_claims
      else None)"

definition compare_example :: "string \<Rightarrow> string \<Rightarrow> bool" where
  "compare_example password hashed = (hashed = ''hash-'' @ password)"

definition hash_example :: "string \<Rightarrow> string" where
  "hash_example password = ''hash-'' @ password"

definition session_of :: "int option \<Rightarrow> session" where
  "session_of i = \<lparr>uid = i, has_save = True, has_destroy = True, has_touch = True,
     save_fails = False\<rparr>"

text \<open>A request with a session that has no user reference yet, and the token of user 2.\<close>

definition token_request :: request where
  "token_request = \<lparr>req_session = Some (session_of None),
     req_sessionID = Some ''sid-2'', req_authorization = Some ''Bearer bob-token'',
     req_cookie = None, req_user = None\<rparr>"

text \<open>The same with the stale token.\<close>

definition stale_request :: request where
  "stale_request = \<lparr>req_session = Some (session_of None),
     req_sessionID = Some ''sid-2'', req_authorization = Some ''Bearer stale-token'',
     req_cookie = None, req_user = None\<rparr>"

definition anonymous_request :: request where
  "anonymous_request = \<lparr>req_session = None, req_sessionID = None,
     req_authorization = None, req_cookie = None, req_user = None\<rparr>"

text \<open>A request that \<open>loginRequired\<close> passed on the token of user 2.\<close>

definition bob_request :: request where
  "bob_request = \<lparr>req_session = None, req_sessionID = None,
     req_authorization = Some ''Bearer bob-token'', req_cookie = None,
     req_user = Some (token_payload bob)\<rparr>"








text \<open>A cache with the profile of \<open>jack\<close>, stored at time 1000000.\<close>

definition jack_cache :: profile_cache where
  "jack_cache = Map.empty(''jack'' \<mapsto> \<lparr>pe_data = ''{id:12}'', pe_timestamp = 1000000\<rparr>)"

definition token_env :: env where
  "token_env = \<lparr>production = False, email_verification = False,
     twitter_bearer_token = Some ''app-key''\<rparr>"

text \<open>An upstream that is rate-limited, one that answers, and one that is down.\<close>

definition fetch_429 :: "string \<Rightarrow> string \<Rightarrow> string + upstream_response" where
  "fetch_429 u k = Inr \<lparr>up_status = 429, up_data = [], up_detail = None\<rparr>"

definition fetch_ok :: "string \<Rightarrow> string \<Rightarrow> string + upstream_response" where
  "fetch_ok u k = Inr \<lparr>up_status = 200, up_data = ''{id:12,v:2}'', up_detail = None\<rparr>"

definition fetch_503 :: "string \<Rightarrow> string \<Rightarrow> string + upstream_response" where
  "fetch_503 u k = Inr \<lparr>up_status = 503, up_data = [], up_detail = Some ''over capacity''\<rparr>"

section \<open>Properties\<close>

text \<open>
  C7. An error whose code is \<open>ETIMEDOUT\<close>, \<open>ECONNREFUSED\<close> or \<open>ENOTFOUND\<close> is answered by
  the global error handler with status 503 and the body
  \<open>{error: 'Database service temporarily unavailable', status: 'error'}\<close>, in production
  and outside it; the handler answers itself, it does not hand the request on to be
  run again (the outcome is \<open>Respond\<close>, not \<open>Next\<close>).
\<close>

theorem transient_error_503:
  "err_code err = Some c \<Longrightarrow> c \<in> {''ETIMEDOUT'', ''ECONNREFUSED'', ''ENOTFOUND''} \<Longrightarrow>
   global_error_handler e err =
     Respond 503 \<lparr>eb_error = Some ''Database service temporarily unavailable'',
                  eb_status = ''error''\<rparr>
   \<and> global_error_handler e err \<noteq> Next"
  by (auto simp: global_error_handler_def truthy_str_def)

theorem transient_error_503_witness:
  "global_error_handler \<lparr>production = True, email_verification = False,
                          twitter_bearer_token = None\<rparr>
     \<lparr>err_code = Some ''ECONNREFUSED'', err_message = Some ''connect ECONNREFUSED'',
      err_statusCode = None\<rparr> =
     Respond 503 \<lparr>eb_error = Some ''Database service temporarily unavailable'',
                  eb_status = ''error''\<rparr>"
  using transient_error_503 [of "\<lparr>err_code = Some ''ECONNREFUSED'',
      err_message = Some ''connect ECONNREFUSED'', err_statusCode = None\<rparr>" "''ECONNREFUSED''"
      "\<lparr>production = True, email_verification = False, twitter_bearer_token = None\<rparr>"]
  by simp

subsection \<open>Identity resolution\<close>

lemma loginRequired_session_first:
  "req_session req = Some s \<Longrightarrow> uid s = Some i \<Longrightarrow> i \<noteq> 0 \<Longrightarrow>
   ar_outcome (loginRequired verify req) = Pass \<and> ar_userId (loginRequired verify req) = Some i"
  by (simp add: loginRequired_def session_uid_def truthy_num_def)

lemma session_check_token_first:
  "header_token verify req = Some t \<Longrightarrow> session_check_userId verify req = c_id t"
  by (simp add: session_check_userId_def)

lemma request_at_answered:
  assumes "\<forall>l \<in> set ls. \<forall>f. l = Use f \<longrightarrow> f = id"
  shows "request_at (ls @ ErrorMiddleware # NotFound # rest) verb url req = Some r \<Longrightarrow>
         r = req"
  using assms
proof (induction ls)
  case Nil
  then show ?case by simp
next
  case (Cons l ls)
  then show ?case by (cases l) (auto split: if_splits)
qed

lemma route_layers_plain: "\<forall>l \<in> set route_layers. \<forall>f. l = Use f \<longrightarrow> f = id"
  by (simp add: route_layers_def)

lemma module_layers_answer:
  "request_at (module_layers @ ls) verb url req = Some r \<Longrightarrow> r = req"
  using request_at_answered [OF route_layers_plain, of "Use id # ls" verb url req r]
  by (simp add: module_layers_def)

text \<open>
  No handler receives a session: every request is answered by a route or by the 404
  handler before it reaches the middleware of express-session.
\<close>

lemma handler_request_no_session:
  "handler_request load genid verify h = Some r \<Longrightarrow>
   r = incoming h \<and> req_session r = None \<and> req_sessionID r = None"
  using module_layers_answer [of "deferred_layers load genid verify" "hr_method h" "hr_path h"
      "incoming h" r]
  by (simp add: handler_request_def app_layers_def incoming_def)



subsection \<open>The session-check endpoint\<close>

lemma isSessionValid_iff:
  "isSessionValid req = (case req_session req of None \<Rightarrow> False | Some s \<Rightarrow> truthy_num (uid s))"
  by (auto simp: isSessionValid_def session_uid_def truthy_num_def split: option.splits)

lemma session_check_success:
  assumes "session_check_userId verify req = Some i" and "db_up d"
    and "filter (\<lambda>u. u_id u = i) (users d) = row # rest"
  shows "sc_status (session_check toUpperCase e sign verify d req) = 200"
    and "sc_body (session_check toUpperCase e sign verify d req) =
       \<lparr>sb_isValid = True, sb_error = None, sb_sessionExists = None,
        sb_sessionValid = Some (case req_session req of
                                  None \<Rightarrow> False | Some s \<Rightarrow> truthy_num (uid s)),
        sb_sessionID = (if truthy_str (req_sessionID req) then req_sessionID req else None),
        sb_token = Some (sign
          \<lparr>c_id = Some (u_id row), c_email = u_email row, c_full_name = u_full_name row,
           c_tier = (if truthy_str (u_tier row) then the (u_tier row) else ''basic''),
           c_is_verified = (u_is_verified row = Some True)\<rparr> ''30d''),
        sb_user = Some
          \<lparr>uj_id = u_id row, uj_email = u_email row, uj_full_name = u_full_name row,
           uj_avatar_url = u_avatar_url row,
           uj_tier = (if truthy_str (u_tier row) then the (u_tier row) else ''basic''),
           uj_is_verified = (u_is_verified row = Some True),
           uj_initials = getInitials toUpperCase (u_full_name row)\<rparr>\<rparr>"
    and "sc_cookie (session_check toUpperCase e sign verify d req) =
       Some (''jwt='' @ sign
          \<lparr>c_id = Some (u_id row), c_email = u_email row, c_full_name = u_full_name row,
           c_tier = (if truthy_str (u_tier row) then the (u_tier row) else ''basic''),
           c_is_verified = (u_is_verified row = Some True)\<rparr> ''30d''
         @ ''; Max-Age=2592000; Path=/; HttpOnly; ''
         @ (if production e then ''Secure; SameSite=None'' else []))"
    and "req_session req = Some s \<Longrightarrow> has_touch s \<Longrightarrow>
       Touch \<in> set (sc_calls (session_check toUpperCase e sign verify d req))"
    and "req_session req = Some s \<Longrightarrow> \<not> truthy_num (uid s) \<Longrightarrow>
       sc_session (session_check toUpperCase e sign verify d req) = Some (s\<lparr>uid := Some i\<rparr>)"
  using assms
  by (auto simp add: session_check_def Let_def isSessionValid_iff
      token_payload_def session_user_json_def tier_or_basic_def verified_or_false_def
      jwt_cookie_def split: option.splits)

lemma session_check_unauthenticated:
  "session_check_userId verify req = None \<Longrightarrow>
   sc_status (session_check toUpperCase e sign verify d req) = 401
   \<and> \<not> sb_isValid (sc_body (session_check toUpperCase e sign verify d req))"
  by (simp add: session_check_def failure_body_def)

lemma session_check_missing_row:
  "session_check_userId verify req = Some i \<Longrightarrow> db_up d \<Longrightarrow>
   filter (\<lambda>u. u_id u = i) (users d) = [] \<Longrightarrow>
   sc_status (session_check toUpperCase e sign verify d req) = 404
   \<and> \<not> sb_isValid (sc_body (session_check toUpperCase e sign verify d req))"
  by (simp add: session_check_def failure_body_def)

text \<open>
  C2. When the session-check endpoint resolves a user id \<open>i\<close> and the query finds the
  row of \<open>i\<close>, it answers 200 with \<open>isValid: true\<close>, \<open>sessionValid\<close>, \<open>sessionID\<close>, the
  user object with the columns of the row, and a token signed with \<open>expiresIn: '30d'\<close>
  over the payload \<open>{id, email, full_name, tier || 'basic', is_verified || false}\<close> of
  the row (whatever the claims of the presented token are); it sets the backup cookie
  to that token; it calls \<open>touch\<close> on the session when there is one (every session
  object of this program has the method); and a session that has no user reference
  gets \<open>i\<close>. When no id resolves the answer is 401, and when no row has the id it is
  404, both with \<open>isValid: false\<close>.
\<close>

theorem session_check_refresh:
  "(session_check_userId verify req = Some i \<and> db_up d
      \<and> filter (\<lambda>u. u_id u = i) (users d) = row # rest \<longrightarrow>
      sc_status (session_check toUpperCase e sign verify d req) = 200
      \<and> sc_body (session_check toUpperCase e sign verify d req) =
           \<lparr>sb_isValid = True, sb_error = None, sb_sessionExists = None,
            sb_sessionValid = Some (case req_session req of
                                      None \<Rightarrow> False | Some s \<Rightarrow> truthy_num (uid s)),
            sb_sessionID = (if truthy_str (req_sessionID req) then req_sessionID req
                            else None),
            sb_token = Some (sign
              \<lparr>c_id = Some (u_id row), c_email = u_email row,
               c_full_name = u_full_name row,
               c_tier = (if truthy_str (u_tier row) then the (u_tier row) else ''basic''),
               c_is_verified = (u_is_verified row = Some True)\<rparr> ''30d''),
            sb_user = Some
              \<lparr>uj_id = u_id row, uj_email = u_email row, uj_full_name = u_full_name row,
               uj_avatar_url = u_avatar_url row,
               uj_tier = (if truthy_str (u_tier row) then the (u_tier row) else ''basic''),
               uj_is_verified = (u_is_verified row = Some True),
               uj_initials = getInitials toUpperCase (u_full_name row)\<rparr>\<rparr>
      \<and> sc_cookie (session_check toUpperCase e sign verify d req) =
           Some (''jwt='' @ sign
              \<lparr>c_id = Some (u_id row), c_email = u_email row,
               c_full_name = u_full_name row,
               c_tier = (if truthy_str (u_tier row) then the (u_tier row) else ''basic''),
               c_is_verified = (u_is_verified row = Some True)\<rparr> ''30d''
             @ ''; Max-Age=2592000; Path=/; HttpOnly; ''
             @ (if production e then ''Secure; SameSite=None'' else []))
      \<and> (\<forall>s. req_session req = Some s \<and> has_touch s \<longrightarrow>
             Touch \<in> set (sc_calls (session_check toUpperCase e sign verify d req)))
      \<and> (\<forall>s. req_session req = Some s \<and> \<not> truthy_num (uid s) \<longrightarrow>
             sc_session (session_check toUpperCase e sign verify d req)
               = Some (s\<lparr>uid := Some i\<rparr>)))
   \<and> (session_check_userId verify req = None \<longrightarrow>
      sc_status (session_check toUpperCase e sign verify d req) = 401
      \<and> \<not> sb_isValid (sc_body (session_check toUpperCase e sign verify d req)))
   \<and> (session_check_userId verify req = Some i \<and> db_up d
      \<and> filter (\<lambda>u. u_id u = i) (users d) = [] \<longrightarrow>
      sc_status (session_check toUpperCase e sign verify d req) = 404
      \<and> \<not> sb_isValid (sc_body (session_check toUpperCase e sign verify d req)))"
  using session_check_success [where verify = verify and req = req and i = i and d = d
      and row = row and rest = rest and e = e and sign = sign and toUpperCase = toUpperCase]
    session_check_unauthenticated [where verify = verify and req = req and d = d
      and e = e and sign = sign and toUpperCase = toUpperCase]
    session_check_missing_row [where verify = verify and req = req and i = i and d = d
      and e = e and sign = sign and toUpperCase = toUpperCase]
  by blast

lemma stale_request_userId: "session_check_userId verify_example stale_request = Some 2"
  by (simp add: session_check_userId_def header_token_def stale_request_def
      verify_example_def stale_claims_def truthy_str_def truthy_num_def substring_def)

lemma token_request_userId: "session_check_userId verify_example token_request = Some 2"
  by (simp add: session_check_userId_def header_token_def token_request_def
      verify_example_def token_payload_def bob_def truthy_str_def truthy_num_def substring_def)

lemma anonymous_request_userId: "session_check_userId verify_example anonymous_request = None"
  by (simp add: session_check_userId_def header_token_def anonymous_request_def
      session_uid_def truthy_str_def)

lemma example_db_bob: "filter (\<lambda>u. u_id u = 2) (users example_db) = [bob]"
  by (simp add: example_db_def alice_def bob_def)

text \<open>
  The witness presents the stale token of user 2 (another email, name and tier, and
  verified); the fresh token carries the columns of the row.
\<close>

theorem session_check_refresh_witness:
  "sign_example stale_claims ''30d'' = ''token:bobby@old.example.com:Bobby Old:basic:verified:30d''
   \<and> sc_status (session_check ascii_upper dev_env sign_example verify_example example_db
        stale_request) = 200
   \<and> sb_token (sc_body (session_check ascii_upper dev_env sign_example verify_example
        example_db stale_request)) = Some ''token:bob@example.com:bob:pro:unverified:30d''
   \<and> map_option uj_email (sb_user (sc_body (session_check ascii_upper dev_env sign_example
        verify_example example_db stale_request))) = Some ''bob@example.com''
   \<and> Touch \<in> set (sc_calls (session_check ascii_upper dev_env sign_example verify_example
        example_db stale_request))
   \<and> sc_session (session_check ascii_upper dev_env sign_example verify_example example_db
        stale_request) = Some (session_of (Some 2))
   \<and> sc_status (session_check ascii_upper dev_env sign_example verify_example example_db
        anonymous_request) = 401
   \<and> sc_status (session_check ascii_upper dev_env sign_example verify_example
        (example_db\<lparr>users := [alice]\<rparr>) stale_request) = 404"
proof -
  have ok: "session_check_userId verify_example stale_request = Some 2 \<and> db_up example_db
      \<and> filter (\<lambda>u. u_id u = 2) (users example_db) = bob # []"
    using stale_request_userId example_db_bob by (simp add: example_db_def)
  have s: "req_session stale_request = Some (session_of None)
      \<and> has_touch (session_of None) \<and> \<not> truthy_num (uid (session_of None))"
    by (simp add: stale_request_def session_of_def truthy_num_def)
  have gone: "session_check_userId verify_example stale_request = Some 2
      \<and> db_up (example_db\<lparr>users := [alice]\<rparr>)
      \<and> filter (\<lambda>u. u_id u = 2) (users (example_db\<lparr>users := [alice]\<rparr>)) = []"
    using stale_request_userId by (simp add: example_db_def alice_def)
  note found = session_check_refresh [where verify = verify_example and req = stale_request
      and i = 2 and d = example_db and row = bob and rest = "[]" and e = dev_env
      and sign = sign_example and toUpperCase = ascii_upper]
  have z: "sign_example stale_claims ''30d''
      = ''token:bobby@old.example.com:Bobby Old:basic:verified:30d''"
    by (simp add: sign_example_def stale_claims_def)
  have a: "sc_status (session_check ascii_upper dev_env sign_example verify_example example_db
        stale_request) = 200"
    using found ok by blast
  have b: "sb_token (sc_body (session_check ascii_upper dev_env sign_example verify_example
        example_db stale_request)) = Some ''token:bob@example.com:bob:pro:unverified:30d''"
    using found ok by (simp add: sign_example_def bob_def truthy_str_def)
  have u: "map_option uj_email (sb_user (sc_body (session_check ascii_upper dev_env
        sign_example verify_example example_db stale_request))) = Some ''bob@example.com''"
    using found ok by (simp add: bob_def)
  have c: "Touch \<in> set (sc_calls (session_check ascii_upper dev_env sign_example
        verify_example example_db stale_request))"
    using found ok s by blast
  have d: "sc_session (session_check ascii_upper dev_env sign_example verify_example
        example_db stale_request) = Some (session_of (Some 2))"
    using found ok s by (simp add: session_of_def)
  have e: "sc_status (session_check ascii_upper dev_env sign_example verify_example
        example_db anonymous_request) = 401"
    using session_check_refresh [where verify = verify_example and req = anonymous_request
        and i = 2 and d = example_db and row = bob and rest = "[]" and e = dev_env
        and sign = sign_example and toUpperCase = ascii_upper] anonymous_request_userId
    by blast
  have f: "sc_status (session_check ascii_upper dev_env sign_example verify_example
        (example_db\<lparr>users := [alice]\<rparr>) stale_request) = 404"
    using session_check_refresh [where verify = verify_example and req = stale_request
        and i = 2 and d = "example_db\<lparr>users := [alice]\<rparr>" and row = bob and rest = "[]"
        and e = dev_env and sign = sign_example and toUpperCase = ascii_upper] gone
    by blast
  from z a b u c d e f show ?thesis by blast
qed

subsection \<open>Login and registration\<close>

text \<open>
  C5. A login whose email and password are both present (so that the query and the hash
  comparison are reached), whose email selects a stored user and whose password fails
  \<open>bcrypt.compare\<close> against that user's hash, is answered with 401 and
  \<open>success: false\<close>; no payload is signed, the body has no token, no cookie is set, and
  the session is left as it was, with no call on it.
\<close>

theorem login_wrong_password:
  assumes "truthy_str email" and "truthy_str password" and "db_up d"
    and "filter (\<lambda>u. u_email u = the email) (users d) = user # rest"
    and "\<not> compare (the password) (u_password user)"
  shows "lg_status (login toUpperCase e sign compare randomToken now d req email password) = 401
    \<and> \<not> lb_success (lg_body (login toUpperCase e sign compare randomToken now d req email
          password))
    \<and> lb_token (lg_body (login toUpperCase e sign compare randomToken now d req email
          password)) = None
    \<and> lg_signed (login toUpperCase e sign compare randomToken now d req email password) = []
    \<and> lg_cookie (login toUpperCase e sign compare randomToken now d req email password) = None
    \<and> lg_session (login toUpperCase e sign compare randomToken now d req email password)
        = req_session req
    \<and> lg_calls (login toUpperCase e sign compare randomToken now d req email password) = []
    \<and> lg_db (login toUpperCase e sign compare randomToken now d req email password) = d"
  using assms by (simp add: login_def login_reply_def)

theorem login_wrong_password_witness:
  "lg_status (login ascii_upper dev_env sign_example compare_example ''r'' 5000 example_db
     token_request (Some ''alice@example.com'') (Some ''x'')) = 401
   \<and> lg_signed (login ascii_upper dev_env sign_example compare_example ''r'' 5000 example_db
     token_request (Some ''alice@example.com'') (Some ''x'')) = []
   \<and> lg_cookie (login ascii_upper dev_env sign_example compare_example ''r'' 5000 example_db
     token_request (Some ''alice@example.com'') (Some ''x'')) = None
   \<and> lg_session (login ascii_upper dev_env sign_example compare_example ''r'' 5000 example_db
     token_request (Some ''alice@example.com'') (Some ''x'')) = Some (session_of None)"
proof -
  have 1: "truthy_str (Some ''alice@example.com'')" and 2: "truthy_str (Some ''x'')"
    by (simp_all add: truthy_str_def)
  have 3: "db_up example_db"
    by (simp add: example_db_def)
  have 4: "filter (\<lambda>u. u_email u = the (Some ''alice@example.com'')) (users example_db)
      = alice # []"
    by (simp add: example_db_def alice_def bob_def)
  have 5: "\<not> compare_example (the (Some ''x'')) (u_password alice)"
    by (simp add: compare_example_def alice_def)
  show ?thesis
    using login_wrong_password [where email = "Some ''alice@example.com''"
        and password = "Some ''x''" and d = example_db and user = alice and rest = "[]"
        and compare = compare_example and e = dev_env and sign = sign_example
        and randomToken = "''r''" and now = 5000 and req = token_request
        and toUpperCase = ascii_upper] 1 2 3 4 5
    by (simp add: token_request_def)
qed

text \<open>
  C6. A registration whose email is the email of a stored user changes nothing in the
  database and sends no \<open>INSERT\<close>; when the \<open>SELECT\<close> is answered, the status is 400.
\<close>

theorem register_existing_email:
  assumes "email = Some em" and "\<exists>u \<in> set (users d). u_email u = em"
  shows "(db_up d \<longrightarrow> rg_status (register e hash randomToken now d email password fullName) = 400)
    \<and> rg_db (register e hash randomToken now d email password fullName) = d
    \<and> (\<forall>q \<in> set (rg_queries (register e hash randomToken now d email password fullName)).
          \<forall>row. q \<noteq> InsertUser row)"
proof -
  from assms have "filter (\<lambda>u. u_email u = the email) (users d) \<noteq> []"
    by (auto simp: filter_empty_conv)
  then show ?thesis
    by (simp add: register_def)
qed

theorem register_existing_email_witness:
  "rg_status (register dev_env hash_example ''r'' 5000 example_db (Some ''bob@example.com'')
     (Some ''pw'') (Some ''Bob B'')) = 400
   \<and> rg_db (register dev_env hash_example ''r'' 5000 example_db (Some ''bob@example.com'')
     (Some ''pw'') (Some ''Bob B'')) = example_db
   \<and> rg_queries (register dev_env hash_example ''r'' 5000 example_db (Some ''bob@example.com'')
     (Some ''pw'') (Some ''Bob B'')) = [SelectUserByEmail ''bob@example.com'']"
proof -
  have ex: "\<exists>u \<in> set (users example_db). u_email u = ''bob@example.com''"
    by (simp add: example_db_def bob_def)
  have up: "db_up example_db"
    by (simp add: example_db_def)
  have q: "rg_queries (register dev_env hash_example ''r'' 5000 example_db
      (Some ''bob@example.com'') (Some ''pw'') (Some ''Bob B''))
      = [SelectUserByEmail ''bob@example.com'']"
    by (simp add: register_def truthy_str_def example_db_def alice_def bob_def)
  show ?thesis
    using register_existing_email [where email = "Some ''bob@example.com''"
        and em = "''bob@example.com''" and d = example_db and e = dev_env
        and hash = hash_example and randomToken = "''r''" and now = 5000
        and password = "Some ''pw''" and fullName = "Some ''Bob B''"] ex up q
    by simp
qed

subsection \<open>The initials helper\<close>

lemma split_space_nonempty: "split_space s \<noteq> []"
  by (induction s) (auto split: list.splits)

lemma split_space_first_letters:
  "concat (map charAt0 (split_space s)) = first_letters True s
   \<and> concat (map charAt0 (tl (split_space s))) = first_letters False s"
proof (induction s)
  case Nil
  show ?case by (simp add: charAt0_def)
next
  case (Cons c cs)
  show ?case
  proof (cases "c = CHR '' ''")
    case True
    with Cons show ?thesis by (simp add: charAt0_def)
  next
    case False
    obtain w ws where w: "split_space cs = w # ws"
      using split_space_nonempty [of cs] by (cases "split_space cs") auto
    with False Cons show ?thesis by (simp add: charAt0_def)
  qed
qed

lemma getInitials_refines:
  "name \<noteq> [] \<Longrightarrow> getInitials toUpperCase (Some name) = initials_spec toUpperCase name"
  by (simp add: getInitials_def truthy_str_def initials_spec_def split_space_first_letters)

lemma login_initials:
  assumes "truthy_str email" and "truthy_str password" and "db_up d"
    and "filter (\<lambda>u. u_email u = the email) (users d) = user # rest"
    and "compare (the password) (u_password user)"
    and "email_verification e \<longrightarrow> u_is_verified user = Some True"
  shows "map_option uj_initials
           (lb_user (lg_body (login toUpperCase e sign compare randomToken now d req email
              password)))
         = Some (getInitials toUpperCase (u_full_name user))"
  using assms
  by (auto simp: login_def login_success_def formattedUser_def verified_or_false_def Let_def)

lemma session_check_initials:
  assumes "session_check_userId verify req = Some i" and "db_up d"
    and "filter (\<lambda>u. u_id u = i) (users d) = row # rest"
  shows "map_option uj_initials
           (sb_user (sc_body (session_check toUpperCase e sign verify d req)))
         = Some (getInitials toUpperCase (u_full_name row))"
  using assms by (simp add: session_check_def session_user_json_def Let_def)

lemma filter_updated_users:
  assumes "\<And>u. u_id (f u) = u_id u"
  shows "filter (\<lambda>u. u_id u = j) (map (\<lambda>u. if u_id u = j then f u else u) xs)
         = map f (filter (\<lambda>u. u_id u = j) xs)"
  using assms by (induction xs) auto

lemma account_update_initials:
  assumes "account_userId req = Some j" and "truthy_str full_name" and "db_up d"
    and "\<exists>u \<in> set (users d). u_id u = j"
  shows "ac_status (account_update toUpperCase now d req full_name country) = 200
    \<and> map_option uj_initials
        (ab_user (ac_body (account_update toUpperCase now d req full_name country)))
      = Some (getInitials toUpperCase full_name)"
proof -
  from assms(4) obtain u us where "filter (\<lambda>u. u_id u = j) (users d) = u # us"
    by (cases "filter (\<lambda>u. u_id u = j) (users d)") (auto simp: filter_empty_conv)
  then show ?thesis
    using assms(1-3) by (simp add: account_update_def Let_def filter_updated_users)
qed

text \<open>
  C9. \<open>getInitials\<close> gives the empty string for a missing and for an empty name, and for
  every other name the first character of each space-separated word, put together and
  uppercased. A successful login answers with \<open>initials\<close> equal to \<open>getInitials\<close> of the
  \<open>full_name\<close> of the row the email selected, a successful session check with that of
  the row of the resolved user, and a successful account update with that of the name
  just stored.
\<close>

theorem getInitials_total:
  "getInitials toUpperCase None = [] \<and> getInitials toUpperCase (Some []) = []
   \<and> (name \<noteq> [] \<longrightarrow> getInitials toUpperCase (Some name) = initials_spec toUpperCase name)
   \<and> (truthy_str email \<and> truthy_str password \<and> db_up d
        \<and> filter (\<lambda>u. u_email u = the email) (users d) = user # rest
        \<and> compare (the password) (u_password user)
        \<and> (email_verification e \<longrightarrow> u_is_verified user = Some True) \<longrightarrow>
      map_option uj_initials
        (lb_user (lg_body (login toUpperCase e sign compare randomToken now d req email
           password)))
      = Some (getInitials toUpperCase (u_full_name user)))
   \<and> (session_check_userId verify req = Some i \<and> db_up d
        \<and> filter (\<lambda>u. u_id u = i) (users d) = row # others \<longrightarrow>
      map_option uj_initials
        (sb_user (sc_body (session_check toUpperCase e sign verify d req)))
      = Some (getInitials toUpperCase (u_full_name row)))
   \<and> (account_userId req = Some j \<and> truthy_str full_name \<and> db_up d
        \<and> (\<exists>u \<in> set (users d). u_id u = j) \<longrightarrow>
      ac_status (account_update toUpperCase now d req full_name country) = 200
      \<and> map_option uj_initials
          (ab_user (ac_body (account_update toUpperCase now d req full_name country)))
        = Some (getInitials toUpperCase full_name))"
  using getInitials_refines [of name toUpperCase]
    login_initials [where email = email and password = password and d = d and user = user
      and rest = rest and compare = compare and e = e and toUpperCase = toUpperCase
      and sign = sign and randomToken = randomToken and now = now and req = req]
    session_check_initials [where verify = verify and req = req and i = i and d = d
      and row = row and rest = others and toUpperCase = toUpperCase and e = e and sign = sign]
    account_update_initials [where req = req and j = j and full_name = full_name and d = d
      and toUpperCase = toUpperCase and now = now and country = country]
  by (simp add: getInitials_def truthy_str_def)

lemma initials_alice: "getInitials ascii_upper (Some ''Alice Liddell'') = ''AL''"
  by (simp add: getInitials_def truthy_str_def ascii_upper_def charAt0_def)

lemma initials_spec_ada: "initials_spec ascii_upper '' ada  lovelace '' = ''AL''"
  by (simp add: initials_spec_def ascii_upper_def)

lemma initials_ada: "getInitials ascii_upper (Some ''ada  lovelace'') = ''AL''"
  by (simp add: getInitials_def truthy_str_def ascii_upper_def charAt0_def)

lemma bob_request_account: "account_userId bob_request = Some 2"
  by (simp add: account_userId_def session_uid_def bob_request_def token_payload_def bob_def
      truthy_num_def)

text \<open>
  The witness logs alice in, checks the session of user 2 on his stale token (whose
  name is another one) and stores a new name for user 2.
\<close>

theorem getInitials_total_witness:
  "getInitials ascii_upper (Some '' ada  lovelace '') = ''AL''
   \<and> map_option uj_initials (lb_user (lg_body (login ascii_upper dev_env sign_example
        compare_example ''r'' 5000 example_db anonymous_request (Some ''alice@example.com'')
        (Some ''a'')))) = Some ''AL''
   \<and> map_option uj_initials (sb_user (sc_body (session_check ascii_upper dev_env sign_example
        verify_example example_db stale_request))) = Some ''B''
   \<and> map_option uj_initials (ab_user (ac_body (account_update ascii_upper 7000 example_db
        bob_request (Some ''ada  lovelace'') None))) = Some ''AL''"
proof -
  have n: "'' ada  lovelace '' \<noteq> []"
    by simp
  have l: "truthy_str (Some ''alice@example.com'') \<and> truthy_str (Some ''a'')
      \<and> db_up example_db
      \<and> filter (\<lambda>u. u_email u = the (Some ''alice@example.com'')) (users example_db)
          = alice # []
      \<and> compare_example (the (Some ''a'')) (u_password alice)
      \<and> (email_verification dev_env \<longrightarrow> u_is_verified alice = Some True)"
    by (simp add: truthy_str_def example_db_def alice_def bob_def compare_example_def)
  have s: "session_check_userId verify_example stale_request = Some 2 \<and> db_up example_db
      \<and> filter (\<lambda>u. u_id u = 2) (users example_db) = bob # []"
    using stale_request_userId example_db_bob by (simp add: example_db_def)
  have a: "account_userId bob_request = Some 2 \<and> truthy_str (Some ''ada  lovelace'')
      \<and> db_up example_db \<and> (\<exists>u \<in> set (users example_db). u_id u = 2)"
    using bob_request_account by (simp add: truthy_str_def example_db_def bob_def)
  have full: "u_full_name alice = Some ''Alice Liddell''" "u_full_name bob = Some ''bob''"
    by (simp_all add: alice_def bob_def)
  have b: "getInitials ascii_upper (Some ''bob'') = ''B''"
    by (simp add: getInitials_def truthy_str_def ascii_upper_def charAt0_def)
  have 1: "getInitials ascii_upper (Some '' ada  lovelace '') = ''AL''"
    using getInitials_total [where name = "'' ada  lovelace ''" and toUpperCase = ascii_upper]
      n initials_spec_ada by simp
  have 2: "map_option uj_initials (lb_user (lg_body (login ascii_upper dev_env sign_example
        compare_example ''r'' 5000 example_db anonymous_request (Some ''alice@example.com'')
        (Some ''a'')))) = Some ''AL''"
    using getInitials_total [where toUpperCase = ascii_upper
        and email = "Some ''alice@example.com''" and password = "Some ''a''"
        and d = example_db and user = alice and rest = "[]" and compare = compare_example
        and e = dev_env and sign = sign_example and randomToken = "''r''" and now = 5000
        and req = anonymous_request] l full initials_alice
    by simp
  have 3: "map_option uj_initials (sb_user (sc_body (session_check ascii_upper dev_env
        sign_example verify_example example_db stale_request))) = Some ''B''"
    using getInitials_total [where toUpperCase = ascii_upper and verify = verify_example
        and req = stale_request and i = 2 and d = example_db and row = bob and others = "[]"
        and e = dev_env and sign = sign_example] s full b
    by simp
  have 4: "map_option uj_initials (ab_user (ac_body (account_update ascii_upper 7000
        example_db bob_request (Some ''ada  lovelace'') None))) = Some ''AL''"
    using getInitials_total [where toUpperCase = ascii_upper and req = bob_request and j = 2
        and full_name = "Some ''ada  lovelace''" and d = example_db and now = 7000
        and country = None] a initials_ada
    by simp
  from 1 2 3 4 show ?thesis by blast
qed

subsection \<open>Bookmark categories\<close>










subsection \<open>The Twitter profile cache\<close>

lemma profile_cache_fresh:
  assumes "truthy_str username"
    and "cache (toLowerCase (the username)) = Some \<lparr>pe_data = p, pe_timestamp = T\<rparr>"
    and "now - T < PROFILE_CACHE_TTL"
  shows "twitter_profile toLowerCase trim e fetch now later d cache username =
         profile_reply 200 (Payload p) cache []"
  using assms by (simp add: twitter_profile_def Let_def)

lemma profile_cache_no_key:
  assumes "truthy_str username"
    and "cache (toLowerCase (the username)) = Some \<lparr>pe_data = p, pe_timestamp = T\<rparr>"
    and "now - T \<ge> PROFILE_CACHE_TTL"
    and "getTwitterApiKey trim e d (the username) = None"
  shows "twitter_profile toLowerCase trim e fetch now later d cache username =
         profile_reply 404 (Failure ''Twitter API key not found for this user'' None) cache []"
  using assms by (simp add: twitter_profile_def Let_def)

lemma profile_cache_stale:
  assumes "truthy_str username"
    and "cache (toLowerCase (the username)) = Some \<lparr>pe_data = p, pe_timestamp = T\<rparr>"
    and "now - T \<ge> PROFILE_CACHE_TTL"
    and "getTwitterApiKey trim e d (the username) = Some k"
  shows "pr_fetches (twitter_profile toLowerCase trim e fetch now later d cache username)
         = [(the username, k)]"
    and "fetch (the username) k = Inr resp \<Longrightarrow> up_status resp = 429 \<Longrightarrow>
         twitter_profile toLowerCase trim e fetch now later d cache username =
           profile_reply 200 (Payload p) cache [(the username, k)]"
    and "fetch (the username) k = Inr resp \<Longrightarrow> up_ok resp \<Longrightarrow>
         twitter_profile toLowerCase trim e fetch now later d cache username =
           profile_reply 200 (Payload (up_data resp))
             (cache(toLowerCase (the username) \<mapsto>
                \<lparr>pe_data = up_data resp, pe_timestamp = later\<rparr>))
             [(the username, k)]"
    and "fetch (the username) k = Inr resp \<Longrightarrow> \<not> up_ok resp \<Longrightarrow> up_status resp \<noteq> 429 \<Longrightarrow>
         pr_status (twitter_profile toLowerCase trim e fetch now later d cache username)
           = up_status resp
         \<and> (\<exists>err msg. pr_body (twitter_profile toLowerCase trim e fetch now later d cache
               username) = Failure err msg)
         \<and> pr_cache (twitter_profile toLowerCase trim e fetch now later d cache username)
             = cache"
  using assms
  by (auto simp add: twitter_profile_def Let_def profile_reply_def up_ok_def
      split: option.splits sum.splits)

text \<open>
  C8, as stated, fails in its second part: with the profile of \<open>jack\<close> stored at
  \<open>T = 1000000\<close>, an upstream that answers 200, no connected profile in the database
  and no \<open>TWITTER_BEARER_TOKEN\<close>, a request for \<open>Jack\<close> at \<open>T\<close> + 16 minutes is answered
  404 and makes no upstream call.
\<close>

theorem profile_refetch_without_key_counterexample:
  "jack_cache (ascii_lower ''Jack'') = Some \<lparr>pe_data = ''{id:12}'', pe_timestamp = 1000000\<rparr>
   \<and> pr_status (twitter_profile ascii_lower ascii_trim dev_env fetch_ok
        (1000000 + 16 * 60 * 1000) (1000000 + 16 * 60 * 1000) example_db jack_cache
        (Some ''Jack'')) = 404
   \<and> pr_fetches (twitter_profile ascii_lower ascii_trim dev_env fetch_ok
        (1000000 + 16 * 60 * 1000) (1000000 + 16 * 60 * 1000) example_db jack_cache
        (Some ''Jack'')) = []"
  by (simp add: twitter_profile_def Let_def profile_reply_def jack_cache_def ascii_lower_def
      ascii_trim_def PROFILE_CACHE_TTL_def getTwitterApiKey_def dev_env_def example_db_def
      truthy_str_def)

text \<open>
  C8, amended. Let the cache hold, under the lower-cased username of the request, the
  payload \<open>p\<close> stored at \<open>T\<close>. At \<open>T\<close> + 14 minutes the request is answered 200 with
  \<open>p\<close>, makes no upstream call and leaves the cache as it is. At \<open>T\<close> + 16 minutes:
  when \<open>getTwitterApiKey\<close> finds no key, the answer is 404, with no upstream call and
  the cache as it is; when it finds a key, the upstream API is called once, with the
  username and that key, and when its answer is not 429 (not rate-limited) the
  request is answered from it, a successful answer with 200 and the new payload,
  which replaces the entry at the time of the answer, and any other with its status
  and an error body; when its answer is 429, the request is answered 200 with the
  stale \<open>p\<close> and the cache stays as it is.
\<close>

theorem profile_cache_staleness:
  assumes "truthy_str username"
    and "cache (toLowerCase (the username)) = Some \<lparr>pe_data = p, pe_timestamp = T\<rparr>"
  shows "(now = T + 14 * 60 * 1000 \<longrightarrow>
            pr_status (twitter_profile toLowerCase trim e fetch now later d cache username) = 200
            \<and> pr_body (twitter_profile toLowerCase trim e fetch now later d cache username)
                = Payload p
            \<and> pr_fetches (twitter_profile toLowerCase trim e fetch now later d cache username)
                = []
            \<and> pr_cache (twitter_profile toLowerCase trim e fetch now later d cache username)
                = cache)
    \<and> (now = T + 16 * 60 * 1000 \<and> getTwitterApiKey trim e d (the username) = None \<longrightarrow>
            pr_status (twitter_profile toLowerCase trim e fetch now later d cache username) = 404
            \<and> pr_fetches (twitter_profile toLowerCase trim e fetch now later d cache username)
                = []
            \<and> pr_cache (twitter_profile toLowerCase trim e fetch now later d cache username)
                = cache)
    \<and> (now = T + 16 * 60 * 1000 \<and> getTwitterApiKey trim e d (the username) = Some k \<longrightarrow>
            pr_fetches (twitter_profile toLowerCase trim e fetch now later d cache username)
              = [(the username, k)]
            \<and> (fetch (the username) k = Inr resp \<and> up_status resp \<noteq> 429 \<and> up_ok resp \<longrightarrow>
                  pr_status (twitter_profile toLowerCase trim e fetch now later d cache
                    username) = 200
                  \<and> pr_body (twitter_profile toLowerCase trim e fetch now later d cache
                      username) = Payload (up_data resp)
                  \<and> pr_cache (twitter_profile toLowerCase trim e fetch now later d cache
                      username)
                    = cache(toLowerCase (the username) \<mapsto>
                        \<lparr>pe_data = up_data resp, pe_timestamp = later\<rparr>))
            \<and> (fetch (the username) k = Inr resp \<and> up_status resp \<noteq> 429
                  \<and> \<not> up_ok resp \<longrightarrow>
                  pr_status (twitter_profile toLowerCase trim e fetch now later d cache
                    username) = up_status resp
                  \<and> (\<exists>err msg. pr_body (twitter_profile toLowerCase trim e fetch now later d
                        cache username) = Failure err msg)
                  \<and> pr_cache (twitter_profile toLowerCase trim e fetch now later d cache
                      username) = cache)
            \<and> (fetch (the username) k = Inr resp \<and> up_status resp = 429 \<longrightarrow>
                  pr_status (twitter_profile toLowerCase trim e fetch now later d cache
                    username) = 200
                  \<and> pr_body (twitter_profile toLowerCase trim e fetch now later d cache
                      username) = Payload p
                  \<and> pr_cache (twitter_profile toLowerCase trim e fetch now later d cache
                      username) = cache))"
proof -
  have fresh: "now = T + 14 * 60 * 1000 \<Longrightarrow> now - T < PROFILE_CACHE_TTL"
    and stale: "now = T + 16 * 60 * 1000 \<Longrightarrow> now - T \<ge> PROFILE_CACHE_TTL"
    by (simp_all add: PROFILE_CACHE_TTL_def)
  note inst = profile_cache_fresh [where username = username and cache = cache and p = p
        and T = T and now = now and e = e and fetch = fetch and later = later and d = d
        and toLowerCase = toLowerCase and trim = trim]
      profile_cache_no_key [where username = username and cache = cache and p = p
        and T = T and now = now and e = e and fetch = fetch and later = later and d = d
        and toLowerCase = toLowerCase and trim = trim]
      profile_cache_stale(1) [where username = username and cache = cache and p = p
        and T = T and now = now and e = e and fetch = fetch and later = later and d = d
        and k = k and toLowerCase = toLowerCase and trim = trim]
      profile_cache_stale(2) [where username = username and cache = cache and p = p
        and T = T and now = now and e = e and fetch = fetch and later = later and d = d
        and k = k and toLowerCase = toLowerCase and trim = trim and resp = resp]
      profile_cache_stale(3) [where username = username and cache = cache and p = p
        and T = T and now = now and e = e and fetch = fetch and later = later and d = d
        and k = k and toLowerCase = toLowerCase and trim = trim and resp = resp]
      profile_cache_stale(4) [where username = username and cache = cache and p = p
        and T = T and now = now and e = e and fetch = fetch and later = later and d = d
        and k = k and toLowerCase = toLowerCase and trim = trim and resp = resp]
  show ?thesis
    using inst assms fresh stale
    by (auto simp add: profile_reply_def)
qed

lemma jack_api_key: "getTwitterApiKey ascii_trim token_env example_db ''Jack'' = Some ''app-key''"
  by (simp add: getTwitterApiKey_def token_env_def example_db_def truthy_str_def)

lemma jack_no_key: "getTwitterApiKey ascii_trim dev_env example_db ''Jack'' = None"
  by (simp add: getTwitterApiKey_def dev_env_def example_db_def truthy_str_def)

lemma jack_cached:
  "jack_cache (ascii_lower (the (Some ''Jack''))) =
   Some \<lparr>pe_data = ''{id:12}'', pe_timestamp = 1000000\<rparr>"
  by (simp add: jack_cache_def ascii_lower_def)

theorem profile_cache_staleness_witness:
  "pr_body (twitter_profile ascii_lower ascii_trim token_env fetch_429
     (1000000 + 14 * 60 * 1000) 0 example_db jack_cache (Some ''Jack'')) = Payload ''{id:12}''
   \<and> pr_fetches (twitter_profile ascii_lower ascii_trim token_env fetch_429
     (1000000 + 14 * 60 * 1000) 0 example_db jack_cache (Some ''Jack'')) = []
   \<and> pr_status (twitter_profile ascii_lower ascii_trim dev_env fetch_ok
     (1000000 + 16 * 60 * 1000) 0 example_db jack_cache (Some ''Jack'')) = 404
   \<and> pr_fetches (twitter_profile ascii_lower ascii_trim token_env fetch_ok
     (1000000 + 16 * 60 * 1000) 1970000 example_db jack_cache (Some ''Jack''))
       = [(''Jack'', ''app-key'')]
   \<and> pr_body (twitter_profile ascii_lower ascii_trim token_env fetch_ok
     (1000000 + 16 * 60 * 1000) 1970000 example_db jack_cache (Some ''Jack''))
       = Payload ''{id:12,v:2}''
   \<and> pr_cache (twitter_profile ascii_lower ascii_trim token_env fetch_ok
     (1000000 + 16 * 60 * 1000) 1970000 example_db jack_cache (Some ''Jack'')) ''jack''
       = Some \<lparr>pe_data = ''{id:12,v:2}'', pe_timestamp = 1970000\<rparr>
   \<and> pr_status (twitter_profile ascii_lower ascii_trim token_env fetch_503
     (1000000 + 16 * 60 * 1000) 0 example_db jack_cache (Some ''Jack'')) = 503
   \<and> pr_status (twitter_profile ascii_lower ascii_trim token_env fetch_429
     (1000000 + 16 * 60 * 1000) 0 example_db jack_cache (Some ''Jack'')) = 200
   \<and> pr_body (twitter_profile ascii_lower ascii_trim token_env fetch_429
     (1000000 + 16 * 60 * 1000) 0 example_db jack_cache (Some ''Jack'')) = Payload ''{id:12}''"
proof -
  have name: "truthy_str (Some ''Jack'')"
    by (simp add: truthy_str_def)
  have limited: "fetch_429 ''Jack'' ''app-key'' =
      Inr \<lparr>up_status = 429, up_data = [], up_detail = None\<rparr>"
    by (simp add: fetch_429_def)
  have answered: "fetch_ok ''Jack'' ''app-key'' =
      Inr \<lparr>up_status = 200, up_data = ''{id:12,v:2}'', up_detail = None\<rparr>"
    by (simp add: fetch_ok_def)
  have failing: "fetch_503 ''Jack'' ''app-key'' =
      Inr \<lparr>up_status = 503, up_data = [], up_detail = Some ''over capacity''\<rparr>"
    by (simp add: fetch_503_def)
  have lower: "ascii_lower ''Jack'' = ''jack''"
    by (simp add: ascii_lower_def)
  have 1: "pr_body (twitter_profile ascii_lower ascii_trim token_env fetch_429
        (1000000 + 14 * 60 * 1000) 0 example_db jack_cache (Some ''Jack''))
        = Payload ''{id:12}''
      \<and> pr_fetches (twitter_profile ascii_lower ascii_trim token_env fetch_429
        (1000000 + 14 * 60 * 1000) 0 example_db jack_cache (Some ''Jack'')) = []"
    using profile_cache_staleness [where username = "Some ''Jack''" and cache = jack_cache
        and p = "''{id:12}''" and T = 1000000 and now = "1000000 + 14 * 60 * 1000"
        and e = token_env and fetch = fetch_429 and later = 0 and d = example_db
        and toLowerCase = ascii_lower and trim = ascii_trim] name jack_cached
    by simp
  have 2: "pr_status (twitter_profile ascii_lower ascii_trim dev_env fetch_ok
        (1000000 + 16 * 60 * 1000) 0 example_db jack_cache (Some ''Jack'')) = 404"
    using profile_cache_staleness [where username = "Some ''Jack''" and cache = jack_cache
        and p = "''{id:12}''" and T = 1000000 and now = "1000000 + 16 * 60 * 1000"
        and e = dev_env and fetch = fetch_ok and later = 0 and d = example_db
        and toLowerCase = ascii_lower and trim = ascii_trim] name jack_cached jack_no_key
    by simp
  have 3: "pr_fetches (twitter_profile ascii_lower ascii_trim token_env fetch_ok
        (1000000 + 16 * 60 * 1000) 1970000 example_db jack_cache (Some ''Jack''))
        = [(''Jack'', ''app-key'')]
      \<and> pr_body (twitter_profile ascii_lower ascii_trim token_env fetch_ok
        (1000000 + 16 * 60 * 1000) 1970000 example_db jack_cache (Some ''Jack''))
        = Payload ''{id:12,v:2}''
      \<and> pr_cache (twitter_profile ascii_lower ascii_trim token_env fetch_ok
        (1000000 + 16 * 60 * 1000) 1970000 example_db jack_cache (Some ''Jack'')) ''jack''
        = Some \<lparr>pe_data = ''{id:12,v:2}'', pe_timestamp = 1970000\<rparr>"
    using profile_cache_staleness [where username = "Some ''Jack''" and cache = jack_cache
        and p = "''{id:12}''" and T = 1000000 and now = "1000000 + 16 * 60 * 1000"
        and e = token_env and fetch = fetch_ok and later = 1970000 and d = example_db
        and toLowerCase = ascii_lower and trim = ascii_trim and k = "''app-key''"
        and resp = "\<lparr>up_status = 200, up_data = ''{id:12,v:2}'', up_detail = None\<rparr>"]
      name jack_cached jack_api_key answered lower
    by (simp add: up_ok_def)
  have 4: "pr_status (twitter_profile ascii_lower ascii_trim token_env fetch_503
        (1000000 + 16 * 60 * 1000) 0 example_db jack_cache (Some ''Jack'')) = 503"
    using profile_cache_staleness [where username = "Some ''Jack''" and cache = jack_cache
        and p = "''{id:12}''" and T = 1000000 and now = "1000000 + 16 * 60 * 1000"
        and e = token_env and fetch = fetch_503 and later = 0 and d = example_db
        and toLowerCase = ascii_lower and trim = ascii_trim and k = "''app-key''"
        and resp = "\<lparr>up_status = 503, up_data = [], up_detail = Some ''over capacity''\<rparr>"]
      name jack_cached jack_api_key failing
    by (simp add: up_ok_def)
  have 5: "pr_status (twitter_profile ascii_lower ascii_trim token_env fetch_429
        (1000000 + 16 * 60 * 1000) 0 example_db jack_cache (Some ''Jack'')) = 200
      \<and> pr_body (twitter_profile ascii_lower ascii_trim token_env fetch_429
        (1000000 + 16 * 60 * 1000) 0 example_db jack_cache (Some ''Jack''))
        = Payload ''{id:12}''"
    using profile_cache_staleness [where username = "Some ''Jack''" and cache = jack_cache
        and p = "''{id:12}''" and T = 1000000 and now = "1000000 + 16 * 60 * 1000"
        and e = token_env and fetch = fetch_429 and later = 0 and d = example_db
        and toLowerCase = ascii_lower and trim = ascii_trim and k = "''app-key''"
        and resp = "\<lparr>up_status = 429, up_data = [], up_detail = None\<rparr>"]
      name jack_cached jack_api_key limited
    by simp
  from 1 2 3 4 5 show ?thesis by blast
qed

subsection \<open>Reconnecting the session store\<close>

lemma new_store_plain:
  "\<not> st_has_connect (new_store kind now) \<and> st_timers (new_store kind now) = []
   \<and> st_connect_calls (new_store kind now) = []"
  by (cases kind) (simp_all add: new_store_def)

lemma store_step_without_connect:
  assumes "\<not> st_has_connect st" and "st_timers st = []"
  shows "\<not> st_has_connect (store_step st ev) \<and> st_timers (store_step st ev) = []
    \<and> st_connect_calls (store_step st ev) = st_connect_calls st"
  using assms by (cases ev) (simp_all add: store_error_def store_check_def advance_def)

lemma store_run_without_connect:
  assumes "\<not> st_has_connect st" and "st_timers st = []"
  shows "\<not> st_has_connect (store_run evs st) \<and> st_timers (store_run evs st) = []
    \<and> st_connect_calls (store_run evs st) = st_connect_calls st"
  using assms
proof (induction evs arbitrary: st)
  case Nil
  then show ?case by (simp add: store_run_def)
next
  case (Cons ev evs)
  have step: "\<not> st_has_connect (store_step st ev) \<and> st_timers (store_step st ev) = []
      \<and> st_connect_calls (store_step st ev) = st_connect_calls st"
    using Cons.prems by (rule store_step_without_connect)
  have "store_run (ev # evs) st = store_run evs (store_step st ev)"
    by (simp add: store_run_def)
  with Cons.IH [of "store_step st ev"] step show ?case by simp
qed

text \<open>
  C4, as stated, fails: on the store \<open>initSessionStore\<close> builds, an error event
  schedules no reconnect at all, and none has been attempted 5 seconds later.
\<close>

theorem no_reconnect_scheduled_counterexample:
  "st_timers (store_run [StoreError] (new_store (initSessionStore False False) 0)) = []
   \<and> st_connect_calls (store_run [StoreError, Advance 5000]
        (new_store (initSessionStore False False) 0)) = []"
  by (simp add: store_run_def store_error_def advance_def new_store_def initSessionStore_def)

text \<open>
  C4, amended. On each of the stores \<open>initSessionStore\<close> can build, whatever happens
  (error events of the store, the store check of a request, time passing), no
  reconnect timer is ever pending, so never more than one, and \<open>connect()\<close> is never
  called: the error handler sets its 5-second timer only for a store that has a
  \<open>connect\<close> function, and the store check calls \<open>connect()\<close> only on such a store
  whose \<open>connected\<close> is \<open>false\<close>; these stores have neither.
\<close>

theorem program_store_never_reconnects:
  "st_timers (store_run evs (new_store (initSessionStore primary_throws secondary_throws) now))
     = []
   \<and> st_connect_calls (store_run evs
        (new_store (initSessionStore primary_throws secondary_throws) now)) = []
   \<and> store_error (new_store (initSessionStore primary_throws secondary_throws) now)
       = new_store (initSessionStore primary_throws secondary_throws) now
   \<and> store_check has_session has_store
        (new_store (initSessionStore primary_throws secondary_throws) now)
       = new_store (initSessionStore primary_throws secondary_throws) now"
  using new_store_plain [of "initSessionStore primary_throws secondary_throws" now]
    store_run_without_connect [of "new_store (initSessionStore primary_throws secondary_throws)
      now" evs]
  by (simp add: store_error_def store_check_def)

theorem program_store_never_reconnects_witness:
  "st_timers (store_run [StoreError, StoreError, StoreCheck False True, Advance 5000]
     (new_store (initSessionStore True True) 0)) = []
   \<and> st_connect_calls (store_run [StoreError, StoreError, StoreCheck False True, Advance 5000]
        (new_store (initSessionStore True True) 0)) = []"
  using program_store_never_reconnects [of
      "[StoreError, StoreError, StoreCheck False True, Advance 5000]" True True 0]
  by simp

subsection \<open>The credential codec\<close>

text \<open>
  C3. A token issued for an identity with a lifetime \<open>ttl\<close> verifies, under the same
  secret, to that identity at every time before its expiry instant; at every time
  after the expiry instant verification fails with \<open>ExpiredToken\<close>, which the callers
  treat as no identity.
\<close>

theorem token_round_trip:
  "(now < issued + ttl \<longrightarrow>
      verify_token secret now (issue secret issued identity ttl) = Inr identity
      \<and> verified_identity secret now (issue secret issued identity ttl) = Some identity)
   \<and> (now > issued + ttl \<longrightarrow>
      verify_token secret now (issue secret issued identity ttl) = Inl ExpiredToken
      \<and> verified_identity secret now (issue secret issued identity ttl) = None)"
  by (simp add: verify_token_def verified_identity_def issue_def)

theorem token_round_trip_witness:
  "verified_identity ''s3cret'' (thirty_days - 1)
     (issue ''s3cret'' 0 (token_payload bob) thirty_days) = Some (token_payload bob)
   \<and> verify_token ''s3cret'' (thirty_days + 1)
     (issue ''s3cret'' 0 (token_payload bob) thirty_days) = Inl ExpiredToken"
  using token_round_trip [of "thirty_days - 1" 0 thirty_days "''s3cret''" "token_payload bob"]
    token_round_trip [of "thirty_days + 1" 0 thirty_days "''s3cret''" "token_payload bob"]
  by simp

end
